theory Spec2Isabelle
  imports Main "HOL-Library.AList"
begin

section \<open>PolicyKit model layer: \<^verbatim>\<open>policyengine/models.py\<close>\<close>

subsection \<open>Python values, dictionaries and the JSON codec\<close>

text \<open>
  The DataStore keeps a Python dictionary as JSON text. The values that policy code can
  put there are modelled by \<open>pyval\<close>: \<^verbatim>\<open>None\<close>, booleans, integers, strings, lists,
  tuples and dictionaries. Dictionary keys are strings or integers (\<open>pykey\<close>); floats and
  the keys \<^verbatim>\<open>True\<close>, \<^verbatim>\<open>False\<close> and \<^verbatim>\<open>None\<close> are outside this universe. Every value of
  the universe is accepted by \<^verbatim>\<open>json.dumps\<close>.

  A dictionary is an association list in insertion order with distinct keys, as a Python
  \<^verbatim>\<open>dict\<close> is.
\<close>

datatype pykey = KStr string | KInt int

datatype pyval =
    PNone
  | PBool bool
  | PInt int
  | PStr string
  | PList "pyval list"
  | PTuple "pyval list"
  | PDict "(pykey \<times> pyval) list"

type_synonym pydict = "(pykey \<times> pyval) list"

text \<open>A JSON document. An object is its list of members in textual order; a text can
  repeat a member name.\<close>

datatype json =
    JNull
  | JBool bool
  | JInt int
  | JStr string
  | JArr "json list"
  | JObj "(string \<times> json) list"

text \<open>\<^verbatim>\<open>obj.get(key, None)\<close>, \<^verbatim>\<open>obj[key] = value\<close> and \<^verbatim>\<open>obj.pop(key, None)\<close>.\<close>

definition dict_get :: "pydict \<Rightarrow> pykey \<Rightarrow> pyval" where
  "dict_get obj key = (case map_of obj key of None \<Rightarrow> PNone | Some v \<Rightarrow> v)"

definition dict_setitem :: "pydict \<Rightarrow> pykey \<Rightarrow> pyval \<Rightarrow> pydict" where
  "dict_setitem obj key val = AList.update key val obj"

definition dict_pop :: "pydict \<Rightarrow> pykey \<Rightarrow> pyval \<times> pydict" where
  "dict_pop obj key = (dict_get obj key, AList.delete key obj)"

text \<open>\<^verbatim>\<open>dict(pairs)\<close>: the pairs are inserted from left to right, a later pair overwrites
  the value of an earlier one with the same key.\<close>

definition dict_of_pairs :: "(pykey \<times> pyval) list \<Rightarrow> pydict" where
  "dict_of_pairs ps = foldl (\<lambda>d (k, v). dict_setitem d k v) [] ps"

text \<open>\<^verbatim>\<open>str(n)\<close> for an integer: decimal digits, with a minus sign when negative.\<close>

fun digits :: "nat \<Rightarrow> string" where
  "digits n =
     (if n < 10 then [char_of (48 + n)]
      else digits (n div 10) @ [char_of (48 + n mod 10)])"

definition str_int :: "int \<Rightarrow> string" where
  "str_int i = (if i < 0 then CHR ''-'' # digits (nat (- i)) else digits (nat i))"

text \<open>\<^verbatim>\<open>json.dumps\<close> writes every dictionary key as a string (an integer key by its
  decimal form) and writes a tuple as an array.\<close>

fun json_key :: "pykey \<Rightarrow> string" where
  "json_key (KStr s) = s"
| "json_key (KInt i) = str_int i"

primrec json_dumps :: "pyval \<Rightarrow> json" where
  "json_dumps PNone = JNull"
| "json_dumps (PBool b) = JBool b"
| "json_dumps (PInt i) = JInt i"
| "json_dumps (PStr s) = JStr s"
| "json_dumps (PList xs) = JArr (map json_dumps xs)"
| "json_dumps (PTuple xs) = JArr (map json_dumps xs)"
| "json_dumps (PDict kvs) = JObj (map (map_prod json_key json_dumps) kvs)"

text \<open>\<^verbatim>\<open>json.loads\<close> reads an array as a list and an object as a dictionary with string
  keys.\<close>

primrec json_loads :: "json \<Rightarrow> pyval" where
  "json_loads JNull = PNone"
| "json_loads (JBool b) = PBool b"
| "json_loads (JInt i) = PInt i"
| "json_loads (JStr s) = PStr s"
| "json_loads (JArr xs) = PList (map json_loads xs)"
| "json_loads (JObj ms) = PDict (dict_of_pairs (map (map_prod KStr json_loads) ms))"

text \<open>Python truthiness (\<^verbatim>\<open>if not res\<close>): \<^verbatim>\<open>None\<close>, \<^verbatim>\<open>False\<close>, \<^verbatim>\<open>0\<close> and the empty
  string, list, tuple and dictionary are falsy.\<close>

fun truthy :: "pyval \<Rightarrow> bool" where
  "truthy PNone = False"
| "truthy (PBool b) = b"
| "truthy (PInt i) = (i \<noteq> 0)"
| "truthy (PStr s) = (s \<noteq> [])"
| "truthy (PList xs) = (xs \<noteq> [])"
| "truthy (PTuple xs) = (xs \<noteq> [])"
| "truthy (PDict kvs) = (kvs \<noteq> [])"

subsection \<open>DataStore\<close>

text \<open>
  \<^verbatim>\<open>data_store = models.TextField()\<close>. A new row holds the empty text, and the only
  writer is \<^verbatim>\<open>_set_data_store\<close>, which writes \<^verbatim>\<open>json.dumps\<close> of a dictionary. The text
  is represented by what it spells: nothing, or a JSON object.
\<close>

datatype stored_text = EmptyText | ObjText "(string \<times> json) list"

record DataStore =
  data_store :: stored_text

definition get_data_store :: "DataStore \<Rightarrow> pydict" where
  "get_data_store self =
     (case data_store self of
        ObjText ms \<Rightarrow> dict_of_pairs (map (map_prod KStr json_loads) ms)
      | EmptyText \<Rightarrow> [])"

definition set_data_store :: "DataStore \<Rightarrow> pydict \<Rightarrow> DataStore" where
  "set_data_store self obj =
     self\<lparr>data_store := ObjText (map (map_prod json_key json_dumps) obj)\<rparr>"

definition DataStore_get :: "DataStore \<Rightarrow> pykey \<Rightarrow> pyval" where
  "DataStore_get self key = dict_get (get_data_store self) key"

definition DataStore_set :: "DataStore \<Rightarrow> pykey \<Rightarrow> pyval \<Rightarrow> bool \<times> DataStore" where
  "DataStore_set self key val =
     (let obj = get_data_store self;
          obj = dict_setitem obj key val
      in (True, set_data_store self obj))"

definition DataStore_remove :: "DataStore \<Rightarrow> pykey \<Rightarrow> bool \<times> DataStore" where
  "DataStore_remove self key =
     (let obj = get_data_store self;
          (res, obj) = dict_pop obj key;
          self = set_data_store self obj
      in if \<not> truthy res then (False, self) else (True, self))"


text \<open>A dictionary as \<^verbatim>\<open>json.loads\<close> returns it: distinct string keys, and values that
  the codec leaves as they are.\<close>

definition loaded :: "pydict \<Rightarrow> bool" where
  "loaded d \<longleftrightarrow> distinct (map fst d) \<and>
     (\<forall>(k, v) \<in> set d. (\<exists>s. k = KStr s) \<and> json_loads (json_dumps v) = v)"

subsection \<open>Votes and the tally queries of \<^verbatim>\<open>Proposal\<close>\<close>

text \<open>
  \<^verbatim>\<open>UserVote\<close> is the abstract base of \<^verbatim>\<open>BooleanVote\<close> and \<^verbatim>\<open>NumberVote\<close>. The foreign
  keys are kept as the primary keys they hold (\<^verbatim>\<open>user_id\<close>, \<^verbatim>\<open>proposal_id\<close>); both value
  columns are nullable. A table is the list of its rows.
\<close>

record UserVote =
  user_id :: nat
  proposal_id :: nat
  vote_time :: nat

record BooleanVote = UserVote +
  boolean_value :: "bool option"

record NumberVote = UserVote +
  number_value :: "int option"

text \<open>The argument \<^verbatim>\<open>users=None\<close>: \<^verbatim>\<open>None\<close> or a collection of members. \<^verbatim>\<open>if users:\<close>
  holds for a collection that is not empty.\<close>

definition users_truthy :: "nat list option \<Rightarrow> bool" where
  "users_truthy users = (case users of None \<Rightarrow> False | Some us \<Rightarrow> us \<noteq> [])"

definition user_in :: "nat list option \<Rightarrow> nat \<Rightarrow> bool" where
  "user_in users u = (case users of None \<Rightarrow> False | Some us \<Rightarrow> u \<in> set us)"

definition get_all_boolean_votes ::
  "BooleanVote list \<Rightarrow> nat \<Rightarrow> nat list option \<Rightarrow> BooleanVote list" where
  "get_all_boolean_votes objects self users =
     (if users_truthy users
      then filter (\<lambda>v. proposal_id v = self \<and> user_in users (user_id v)) objects
      else filter (\<lambda>v. proposal_id v = self) objects)"

definition get_yes_votes ::
  "BooleanVote list \<Rightarrow> nat \<Rightarrow> nat list option \<Rightarrow> BooleanVote list" where
  "get_yes_votes objects self users =
     (if users_truthy users
      then filter (\<lambda>v. boolean_value v = Some True \<and> proposal_id v = self
                       \<and> user_in users (user_id v)) objects
      else filter (\<lambda>v. boolean_value v = Some True \<and> proposal_id v = self) objects)"

definition get_no_votes ::
  "BooleanVote list \<Rightarrow> nat \<Rightarrow> nat list option \<Rightarrow> BooleanVote list" where
  "get_no_votes objects self users =
     (if users_truthy users
      then filter (\<lambda>v. boolean_value v = Some False \<and> proposal_id v = self
                       \<and> user_in users (user_id v)) objects
      else filter (\<lambda>v. boolean_value v = Some False \<and> proposal_id v = self) objects)"

definition get_all_number_votes ::
  "NumberVote list \<Rightarrow> nat \<Rightarrow> nat list option \<Rightarrow> NumberVote list" where
  "get_all_number_votes objects self users =
     (if users_truthy users
      then filter (\<lambda>v. proposal_id v = self \<and> user_in users (user_id v)) objects
      else filter (\<lambda>v. proposal_id v = self) objects)"

definition get_one_number_votes ::
  "NumberVote list \<Rightarrow> nat \<Rightarrow> int \<Rightarrow> nat list option \<Rightarrow> NumberVote list" where
  "get_one_number_votes objects self val users =
     (if users_truthy users
      then filter (\<lambda>v. number_value v = Some val \<and> proposal_id v = self
                       \<and> user_in users (user_id v)) objects
      else filter (\<lambda>v. number_value v = Some val \<and> proposal_id v = self) objects)"

text \<open>
  Modelled from the spec: the function that casts a vote is missing (\<^verbatim>\<open>models.py\<close> only
  declares the vote tables; the votes are written by the views of the platform
  integrations). The spec: ``\<^verbatim>\<open>castVote(proposal, member, value)\<close> records or replaces
  that member's vote''. A member who has a vote on the proposal gets its value replaced,
  any other member gets a new row.
\<close>

definition votes_of :: "BooleanVote list \<Rightarrow> nat \<Rightarrow> nat \<Rightarrow> BooleanVote list" where
  "votes_of objects prop member =
     filter (\<lambda>v. proposal_id v = prop \<and> user_id v = member) objects"

definition castVote ::
  "BooleanVote list \<Rightarrow> nat \<Rightarrow> nat \<Rightarrow> bool \<Rightarrow> nat \<Rightarrow> BooleanVote list" where
  "castVote objects prop member val now =
     (if votes_of objects prop member \<noteq> []
      then map (\<lambda>v. if proposal_id v = prop \<and> user_id v = member
                     then v\<lparr>boolean_value := Some val\<rparr> else v) objects
      else objects @ [\<lparr>user_id = member, proposal_id = prop, vote_time = now,
                       boolean_value = Some val\<rparr>])"

text \<open>At most one vote for each member and proposal.\<close>

definition one_vote_each :: "BooleanVote list \<Rightarrow> bool" where
  "one_vote_each objects = distinct (map (\<lambda>v. (proposal_id v, user_id v)) objects)"

subsection \<open>The record store\<close>

text \<open>
  The Django ORM is an external collaborator. A table is an association list from primary
  key to row, with the next key of its sequence. \<^verbatim>\<open>Model.save()\<close> inserts an instance
  whose \<^verbatim>\<open>pk\<close> is \<^verbatim>\<open>None\<close> under a new key and writes any other instance under its own
  key. \<^verbatim>\<open>Model.delete()\<close> asserts that \<^verbatim>\<open>pk\<close> is not \<^verbatim>\<open>None\<close>, removes the row and
  sets the instance's \<^verbatim>\<open>pk\<close> to \<^verbatim>\<open>None\<close>; deleting a row that is no longer there removes
  nothing and raises nothing. Cascades to referring rows are not modelled.
\<close>

datatype error =
    AttributeError
  | AssertionError
  | TypeError
  | ValueError
  | IntegrityError
  | MultipleObjectsReturned
  | RelatedObjectDoesNotExist
  | OtherError string

record 'r table =
  rows :: "(nat \<times> 'r) list"
  next_pk :: nat

definition model_save ::
  "('r \<Rightarrow> nat option) \<Rightarrow> (nat option \<Rightarrow> 'r \<Rightarrow> 'r) \<Rightarrow> 'r \<Rightarrow> 'r table \<Rightarrow> 'r \<times> 'r table" where
  "model_save get_pk set_pk obj t =
     (case get_pk obj of
        None \<Rightarrow>
          (let k = next_pk t; obj = set_pk (Some k) obj
           in (obj, t\<lparr>rows := AList.update k obj (rows t), next_pk := Suc k\<rparr>))
      | Some k \<Rightarrow> (obj, t\<lparr>rows := AList.update k obj (rows t)\<rparr>))"

definition model_delete ::
  "('r \<Rightarrow> nat option) \<Rightarrow> (nat option \<Rightarrow> 'r \<Rightarrow> 'r) \<Rightarrow> 'r \<Rightarrow> 'r table
     \<Rightarrow> error + ('r \<times> 'r table)" where
  "model_delete get_pk set_pk obj t =
     (case get_pk obj of
        None \<Rightarrow> Inl AssertionError
      | Some k \<Rightarrow> Inr (set_pk None obj, t\<lparr>rows := AList.delete k (rows t)\<rparr>))"

text \<open>\<^verbatim>\<open>not self.pk\<close>: true for \<^verbatim>\<open>None\<close> and for \<^verbatim>\<open>0\<close>.\<close>

definition not_pk :: "nat option \<Rightarrow> bool" where
  "not_pk k = (k = None \<or> k = Some 0)"

subsection \<open>Community configuration: documents, roles and policies\<close>

record Community =
  community_pk :: nat
  community_name :: string
  platform :: "string option"

record CommunityDoc =
  doc_pk :: "nat option"
  doc_name :: string
  doc_text :: string
  doc_community :: "nat option"

text \<open>\<^verbatim>\<open>CommunityRole\<close> extends Django's \<^verbatim>\<open>Group\<close>, whose \<^verbatim>\<open>name\<close> is unique; the
  many-to-many relations \<^verbatim>\<open>permissions\<close> and \<^verbatim>\<open>user_set\<close> are kept with the row.\<close>

record CommunityRole =
  role_pk :: "nat option"
  group_name :: string
  role_name :: string
  role_description :: string
  role_community :: "nat option"
  permissions :: "string list"
  user_set :: "nat list"

text \<open>\<^verbatim>\<open>BasePolicy\<close>, the fields of \<^verbatim>\<open>PlatformPolicy\<close> and \<^verbatim>\<open>ConstitutionPolicy\<close>.\<close>

record Policy =
  policy_pk :: "nat option"
  policy_filter :: string
  initialize :: string
  check :: string
  notify :: string
  success :: string
  fail :: string
  policy_name :: "string option"
  policy_community :: nat
  policy_description :: "string option"
  policy_is_bundled :: bool
  has_notified :: bool
  policy_data :: "nat option"

text \<open>\<^verbatim>\<open>EditorModel\<close>: the payload of the actions that add or change a policy.\<close>

record EditorModel =
  editor_name :: "string option"
  editor_description :: "string option"
  editor_filter :: string
  editor_initialize :: string
  editor_check :: string
  editor_notify :: string
  editor_success :: string
  editor_fail :: string

record config =
  CommunityDoc_objects :: "CommunityDoc table"
  CommunityRole_objects :: "CommunityRole table"
  PlatformPolicy_objects :: "Policy table"
  ConstitutionPolicy_objects :: "Policy table"

definition CommunityDoc_save ::
  "CommunityDoc \<Rightarrow> CommunityDoc table \<Rightarrow> CommunityDoc \<times> CommunityDoc table" where
  "CommunityDoc_save = model_save doc_pk (\<lambda>k d. d\<lparr>doc_pk := k\<rparr>)"

definition CommunityDoc_delete ::
  "CommunityDoc \<Rightarrow> CommunityDoc table \<Rightarrow> error + (CommunityDoc \<times> CommunityDoc table)" where
  "CommunityDoc_delete = model_delete doc_pk (\<lambda>k d. d\<lparr>doc_pk := k\<rparr>)"

definition CommunityRole_save ::
  "CommunityRole \<Rightarrow> CommunityRole table \<Rightarrow> CommunityRole \<times> CommunityRole table" where
  "CommunityRole_save = model_save role_pk (\<lambda>k r. r\<lparr>role_pk := k\<rparr>)"

definition CommunityRole_delete ::
  "CommunityRole \<Rightarrow> CommunityRole table \<Rightarrow> error + (CommunityRole \<times> CommunityRole table)" where
  "CommunityRole_delete = model_delete role_pk (\<lambda>k r. r\<lparr>role_pk := k\<rparr>)"

definition Policy_save :: "Policy \<Rightarrow> Policy table \<Rightarrow> Policy \<times> Policy table" where
  "Policy_save = model_save policy_pk (\<lambda>k p. p\<lparr>policy_pk := k\<rparr>)"

definition Policy_delete :: "Policy \<Rightarrow> Policy table \<Rightarrow> error + (Policy \<times> Policy table)" where
  "Policy_delete = model_delete policy_pk (\<lambda>k p. p\<lparr>policy_pk := k\<rparr>)"

text \<open>\<^verbatim>\<open>CommunityDoc.objects.get_or_create(name=..., text=...)\<close>: the one matching row,
  a new row when none matches, an error when several do.\<close>

definition CommunityDoc_get_or_create ::
  "string \<Rightarrow> string \<Rightarrow> CommunityDoc table \<Rightarrow> error + (CommunityDoc \<times> CommunityDoc table)" where
  "CommunityDoc_get_or_create name txt t =
     (case filter (\<lambda>d. doc_name d = name \<and> doc_text d = txt) (map snd (rows t)) of
        [] \<Rightarrow> Inr (CommunityDoc_save
                 \<lparr>doc_pk = None, doc_name = name, doc_text = txt, doc_community = None\<rparr> t)
      | [d] \<Rightarrow> Inr (d, t)
      | _ \<Rightarrow> Inl MultipleObjectsReturned)"

text \<open>\<^verbatim>\<open>CommunityRole.objects.get_or_create(role_name=..., name=..., description=...)\<close>;
  creating a second group with a name that exists violates the unique constraint.\<close>

definition CommunityRole_get_or_create ::
  "string \<Rightarrow> string \<Rightarrow> string \<Rightarrow> CommunityRole table
     \<Rightarrow> error + (CommunityRole \<times> CommunityRole table)" where
  "CommunityRole_get_or_create rname gname descr t =
     (case filter (\<lambda>r. role_name r = rname \<and> group_name r = gname \<and> role_description r = descr)
             (map snd (rows t)) of
        [] \<Rightarrow>
          (if gname \<in> set (map (group_name \<circ> snd) (rows t)) then Inl IntegrityError
           else Inr (CommunityRole_save
                  \<lparr>role_pk = None, group_name = gname, role_name = rname,
                   role_description = descr, role_community = None, permissions = [],
                   user_set = []\<rparr> t))
      | [r] \<Rightarrow> Inr (r, t)
      | _ \<Rightarrow> Inl MultipleObjectsReturned)"

text \<open>A many-to-many manager (\<^verbatim>\<open>role.permissions\<close>, \<^verbatim>\<open>role.user_set\<close>) can be used only on
  an instance that has a primary key. \<^verbatim>\<open>add\<close> and \<^verbatim>\<open>remove\<close> write the relation at once.\<close>

definition role_write :: "CommunityRole \<Rightarrow> CommunityRole table \<Rightarrow> CommunityRole table" where
  "role_write r t = snd (CommunityRole_save r t)"

fun permissions_add_all ::
  "string list \<Rightarrow> CommunityRole \<Rightarrow> CommunityRole table
     \<Rightarrow> error + (CommunityRole \<times> CommunityRole table)" where
  "permissions_add_all [] r t = Inr (r, t)"
| "permissions_add_all (p # ps) r t =
     (if role_pk r = None then Inl ValueError
      else let r = r\<lparr>permissions := List.insert p (permissions r)\<rparr>
           in permissions_add_all ps r (role_write r t))"

fun user_set_add_all ::
  "nat list \<Rightarrow> CommunityRole \<Rightarrow> CommunityRole table
     \<Rightarrow> error + (CommunityRole \<times> CommunityRole table)" where
  "user_set_add_all [] r t = Inr (r, t)"
| "user_set_add_all (u # us) r t =
     (if role_pk r = None then Inl ValueError
      else let r = r\<lparr>user_set := List.insert u (user_set r)\<rparr>
           in user_set_add_all us r (role_write r t))"

fun user_set_remove_all ::
  "nat list \<Rightarrow> CommunityRole \<Rightarrow> CommunityRole table
     \<Rightarrow> error + (CommunityRole \<times> CommunityRole table)" where
  "user_set_remove_all [] r t = Inr (r, t)"
| "user_set_remove_all (u # us) r t =
     (if role_pk r = None then Inl ValueError
      else let r = r\<lparr>user_set := removeAll u (user_set r)\<rparr>
           in user_set_remove_all us r (role_write r t))"

subsection \<open>The catalog of constitution actions and their effects\<close>

text \<open>
  One constructor for each subclass of \<^verbatim>\<open>ConstitutionAction\<close>, with the fields the
  subclass declares. A nullable foreign key (\<^verbatim>\<open>models.SET_NULL, null=True\<close>) holds
  \<^verbatim>\<open>None\<close> or the related instance; the instance is taken to be what its row holds.
\<close>

datatype kind =
    PolicykitAddCommunityDoc string string
  | PolicykitChangeCommunityDoc "CommunityDoc option" string string
  | PolicykitDeleteCommunityDoc "CommunityDoc option"
  | PolicykitAddRole string string "string list"
  | PolicykitDeleteRole "CommunityRole option"
  | PolicykitEditRole "CommunityRole option" string string "string list"
  | PolicykitAddUserRole CommunityRole "nat list"
  | PolicykitRemoveUserRole CommunityRole "nat list"
  | PolicykitAddPlatformPolicy EditorModel
  | PolicykitAddConstitutionPolicy EditorModel
  | PolicykitChangePlatformPolicy Policy EditorModel
  | PolicykitChangeConstitutionPolicy Policy EditorModel
  | PolicykitRemovePlatformPolicy "Policy option"
  | PolicykitRemoveConstitutionPolicy "Policy option"

fun action_codename :: "kind \<Rightarrow> string" where
  "action_codename (PolicykitAddCommunityDoc _ _) = ''policykitaddcommunitydoc''"
| "action_codename (PolicykitChangeCommunityDoc _ _ _) = ''policykitchangecommunitydoc''"
| "action_codename (PolicykitDeleteCommunityDoc _) = ''policykitdeletecommunitydoc''"
| "action_codename (PolicykitAddRole _ _ _) = ''policykitaddrole''"
| "action_codename (PolicykitDeleteRole _) = ''policykitdeleterole''"
| "action_codename (PolicykitEditRole _ _ _ _) = ''policykiteditrole''"
| "action_codename (PolicykitAddUserRole _ _) = ''policykitadduserrole''"
| "action_codename (PolicykitRemoveUserRole _ _) = ''policykitremoveuserrole''"
| "action_codename (PolicykitAddPlatformPolicy _) = ''policykitaddplatformpolicy''"
| "action_codename (PolicykitAddConstitutionPolicy _) = ''policykitaddconstitutionpolicy''"
| "action_codename (PolicykitChangePlatformPolicy _ _) = ''policykitchangeplatformpolicy''"
| "action_codename (PolicykitChangeConstitutionPolicy _ _) =
     ''policykitchangeconstitutionpolicy''"
| "action_codename (PolicykitRemovePlatformPolicy _) = ''policykitremoveplatformpolicy''"
| "action_codename (PolicykitRemoveConstitutionPolicy _) =
     ''policykitremoveconstitutionpolicy''"

text \<open>The four role actions that carry users or permissions override \<^verbatim>\<open>shouldCreate\<close> to
  return their \<^verbatim>\<open>ready\<close> flag.\<close>

fun has_ready :: "kind \<Rightarrow> bool" where
  "has_ready (PolicykitAddRole _ _ _) = True"
| "has_ready (PolicykitEditRole _ _ _ _) = True"
| "has_ready (PolicykitAddUserRole _ _) = True"
| "has_ready (PolicykitRemoveUserRole _ _) = True"
| "has_ready _ = False"

definition new_policy :: "EditorModel \<Rightarrow> bool \<Rightarrow> Community \<Rightarrow> Policy" where
  "new_policy e bundled c =
     \<lparr>policy_pk = None, policy_filter = editor_filter e, initialize = editor_initialize e,
      check = editor_check e, notify = editor_notify e, success = editor_success e,
      fail = editor_fail e, policy_name = editor_name e, policy_community = community_pk c,
      policy_description = editor_description e, policy_is_bundled = bundled,
      has_notified = False, policy_data = None\<rparr>"

definition change_policy :: "Policy \<Rightarrow> EditorModel \<Rightarrow> Policy" where
  "change_policy p e =
     p\<lparr>policy_name := editor_name e, policy_description := editor_description e,
       policy_filter := editor_filter e, initialize := editor_initialize e,
       check := editor_check e, notify := editor_notify e, success := editor_success e,
       fail := editor_fail e\<rparr>"

text \<open>
  The body of each \<^verbatim>\<open>execute\<close> up to its last statement \<^verbatim>\<open>self.pass_action()\<close>: the
  change to the community's configuration. The result holds the action's fields again,
  since \<^verbatim>\<open>delete()\<close> and \<^verbatim>\<open>save()\<close> change the related instance. The flag is the action's
  \<^verbatim>\<open>is_bundled\<close>.
\<close>

fun effect :: "kind \<Rightarrow> bool \<Rightarrow> Community \<Rightarrow> config \<Rightarrow> error + (kind \<times> config)" where
  "effect (PolicykitAddCommunityDoc name txt) b c cfg =
     (case CommunityDoc_get_or_create name txt (CommunityDoc_objects cfg) of
        Inl e \<Rightarrow> Inl e
      | Inr (doc, t) \<Rightarrow>
          (let doc = doc\<lparr>doc_community := Some (community_pk c)\<rparr>;
               (doc, t) = CommunityDoc_save doc t
           in Inr (PolicykitAddCommunityDoc name txt, cfg\<lparr>CommunityDoc_objects := t\<rparr>)))"
| "effect (PolicykitChangeCommunityDoc doc name txt) b c cfg =
     (case doc of
        None \<Rightarrow> Inl AttributeError
      | Some d \<Rightarrow>
          (let d = d\<lparr>doc_name := name, doc_text := txt\<rparr>;
               (d, t) = CommunityDoc_save d (CommunityDoc_objects cfg)
           in Inr (PolicykitChangeCommunityDoc (Some d) name txt,
                   cfg\<lparr>CommunityDoc_objects := t\<rparr>)))"
| "effect (PolicykitDeleteCommunityDoc doc) b c cfg =
     (case doc of
        None \<Rightarrow> Inl AttributeError
      | Some d \<Rightarrow>
          (case CommunityDoc_delete d (CommunityDoc_objects cfg) of
             Inl e \<Rightarrow> Inl e
           | Inr (d, t) \<Rightarrow>
               Inr (PolicykitDeleteCommunityDoc (Some d), cfg\<lparr>CommunityDoc_objects := t\<rparr>)))"
| "effect (PolicykitAddRole name descr perms) b c cfg =
     (case platform c of
        None \<Rightarrow> Inl TypeError
      | Some plat \<Rightarrow>
          (case CommunityRole_get_or_create name
                  (plat @ '': '' @ community_name c @ '': '' @ name) descr
                  (CommunityRole_objects cfg) of
             Inl e \<Rightarrow> Inl e
           | Inr (role, t) \<Rightarrow>
               (case permissions_add_all perms role t of
                  Inl e \<Rightarrow> Inl e
                | Inr (role, t) \<Rightarrow>
                    (let role = role\<lparr>role_community := Some (community_pk c)\<rparr>;
                         (role, t) = CommunityRole_save role t
                     in Inr (PolicykitAddRole name descr perms,
                             cfg\<lparr>CommunityRole_objects := t\<rparr>)))))"
| "effect (PolicykitDeleteRole role) b c cfg =
     (case role of
        None \<Rightarrow> Inl AttributeError
      | Some r \<Rightarrow>
          (case CommunityRole_delete r (CommunityRole_objects cfg) of
             Inl e \<Rightarrow>
               (if e = AssertionError then Inr (PolicykitDeleteRole (Some r), cfg) else Inl e)
           | Inr (r, t) \<Rightarrow>
               Inr (PolicykitDeleteRole (Some r), cfg\<lparr>CommunityRole_objects := t\<rparr>)))"
| "effect (PolicykitEditRole role name descr perms) b c cfg =
     (case role of
        None \<Rightarrow> Inl AttributeError
      | Some r \<Rightarrow>
          (let r = r\<lparr>role_name := name, role_description := descr\<rparr>
           in if role_pk r = None then Inl ValueError
              else (let r = r\<lparr>permissions := []\<rparr>;
                        t = role_write r (CommunityRole_objects cfg)
                    in case permissions_add_all perms r t of
                         Inl e \<Rightarrow> Inl e
                       | Inr (r, t) \<Rightarrow>
                           (let (r, t) = CommunityRole_save r t
                            in Inr (PolicykitEditRole (Some r) name descr perms,
                                    cfg\<lparr>CommunityRole_objects := t\<rparr>)))))"
| "effect (PolicykitAddUserRole role users) b c cfg =
     (case user_set_add_all users role (CommunityRole_objects cfg) of
        Inl e \<Rightarrow> Inl e
      | Inr (r, t) \<Rightarrow> Inr (PolicykitAddUserRole r users, cfg\<lparr>CommunityRole_objects := t\<rparr>))"
| "effect (PolicykitRemoveUserRole role users) b c cfg =
     (case user_set_remove_all users role (CommunityRole_objects cfg) of
        Inl e \<Rightarrow> Inl e
      | Inr (r, t) \<Rightarrow> Inr (PolicykitRemoveUserRole r users, cfg\<lparr>CommunityRole_objects := t\<rparr>))"
| "effect (PolicykitAddPlatformPolicy e) b c cfg =
     (let (p, t) = Policy_save (new_policy e b c) (PlatformPolicy_objects cfg)
      in Inr (PolicykitAddPlatformPolicy e, cfg\<lparr>PlatformPolicy_objects := t\<rparr>))"
| "effect (PolicykitAddConstitutionPolicy e) b c cfg =
     (let (p, t) = Policy_save (new_policy e b c) (ConstitutionPolicy_objects cfg)
      in Inr (PolicykitAddConstitutionPolicy e, cfg\<lparr>ConstitutionPolicy_objects := t\<rparr>))"
| "effect (PolicykitChangePlatformPolicy p e) b c cfg =
     (let (p, t) = Policy_save (change_policy p e) (PlatformPolicy_objects cfg)
      in Inr (PolicykitChangePlatformPolicy p e, cfg\<lparr>PlatformPolicy_objects := t\<rparr>))"
| "effect (PolicykitChangeConstitutionPolicy p e) b c cfg =
     (let (p, t) = Policy_save (change_policy p e) (ConstitutionPolicy_objects cfg)
      in Inr (PolicykitChangeConstitutionPolicy p e, cfg\<lparr>ConstitutionPolicy_objects := t\<rparr>))"
| "effect (PolicykitRemovePlatformPolicy pol) b c cfg =
     (case pol of
        None \<Rightarrow> Inl AttributeError
      | Some p \<Rightarrow>
          (case Policy_delete p (PlatformPolicy_objects cfg) of
             Inl e \<Rightarrow> Inl e
           | Inr (p, t) \<Rightarrow>
               Inr (PolicykitRemovePlatformPolicy (Some p), cfg\<lparr>PlatformPolicy_objects := t\<rparr>)))"
| "effect (PolicykitRemoveConstitutionPolicy pol) b c cfg =
     (case pol of
        None \<Rightarrow> Inl AttributeError
      | Some p \<Rightarrow>
          (case Policy_delete p (ConstitutionPolicy_objects cfg) of
             Inl e \<Rightarrow> Inl e
           | Inr (p, t) \<Rightarrow>
               Inr (PolicykitRemoveConstitutionPolicy (Some p),
                    cfg\<lparr>ConstitutionPolicy_objects := t\<rparr>)))"

subsection \<open>Proposals and actions\<close>

datatype status = PROPOSED | FAILED | PASSED

text \<open>\<^verbatim>\<open>proposal_data\<close> is the attribute \<^verbatim>\<open>data\<close> that \<^verbatim>\<open>Proposal.save\<close> sets on a new
  instance; \<^verbatim>\<open>proposal_time\<close> is left out.\<close>

record Proposal =
  proposal_pk :: "nat option"
  author :: "nat option"
  status :: status
  proposal_data :: "nat option"

text \<open>\<^verbatim>\<open>BaseAction\<close> is abstract. \<^verbatim>\<open>proposal\<close> is \<^verbatim>\<open>None\<close> as long as the attribute has not
  been assigned (\<^verbatim>\<open>hasattr(self, 'proposal')\<close> is false); \<^verbatim>\<open>data\<close> holds the primary key
  of the action's DataStore.\<close>

record BaseAction =
  pk :: "nat option"
  community :: Community
  community_post :: "string option"
  proposal :: "Proposal option"
  is_bundled :: bool
  data :: "nat option"

text \<open>\<^verbatim>\<open>ConstitutionAction\<close> and \<^verbatim>\<open>PlatformAction\<close> both declare \<^verbatim>\<open>initiator\<close>; the bundles
  do not.\<close>

record Action = BaseAction +
  initiator :: "nat option"

record ConstitutionAction = Action +
  kind :: kind
  ready :: bool

text \<open>The subclasses of \<^verbatim>\<open>PlatformAction\<close> live in the platform integrations; each sets its
  own \<^verbatim>\<open>action_codename\<close>, \<^verbatim>\<open>app_name\<close> and Django app label.\<close>

record PlatformAction = Action +
  community_revert :: bool
  community_origin :: bool
  platform_codename :: string
  app_label :: string
  app_name :: string

datatype bundle_type = ELECTION | BUNDLE

text \<open>\<^verbatim>\<open>ConstitutionActionBundle\<close> and \<^verbatim>\<open>PlatformActionBundle\<close>; \<^verbatim>\<open>bundled_actions\<close> is what
  \<^verbatim>\<open>self.bundled_actions.all()\<close> returns.\<close>

record 'a ActionBundle = BaseAction +
  bundled_actions :: "'a list"
  bundle_type :: bundle_type

text \<open>
  The calls that leave the model layer are recorded in a trace: a call of
  \<^verbatim>\<open>execute_policy\<close> (the only place where the hooks of a policy run), the completed
  effect of an action, and the notification \<^verbatim>\<open>action.send\<close> of the activity stream.
\<close>

datatype event =
    ExecutePolicy "nat option" "nat option"
  | RealEffect "nat option"
  | ActstreamSend "nat option"

record 'w db =
  DataStore_objects :: "DataStore table"
  Proposal_objects :: "Proposal table"
  ConstitutionAction_objects :: "ConstitutionAction table"
  PlatformAction_objects :: "PlatformAction table"
  config :: config
  world :: 'w
  trace :: "event list"

text \<open>\<^verbatim>\<open>DataStore.objects.create()\<close>: a new row with the empty text.\<close>

definition DataStore_create :: "'w db \<Rightarrow> nat \<times> 'w db" where
  "DataStore_create s =
     (let t = DataStore_objects s; k = next_pk t
      in (k, s\<lparr>DataStore_objects :=
                 t\<lparr>rows := AList.update k \<lparr>data_store = EmptyText\<rparr> (rows t),
                   next_pk := Suc k\<rparr>\<rparr>))"

definition Proposal_save :: "Proposal \<Rightarrow> 'w db \<Rightarrow> Proposal \<times> 'w db" where
  "Proposal_save self s =
     (let (self, s) =
            (if not_pk (proposal_pk self)
             then (let (d, s) = DataStore_create s in (self\<lparr>proposal_data := Some d\<rparr>, s))
             else (self, s));
          (self, t) = model_save proposal_pk (\<lambda>k p. p\<lparr>proposal_pk := k\<rparr>) self
                        (Proposal_objects s)
      in (self, s\<lparr>Proposal_objects := t\<rparr>))"

text \<open>\<^verbatim>\<open>Proposal.objects.create(status=..., author=...)\<close>.\<close>

definition Proposal_create :: "status \<Rightarrow> nat option \<Rightarrow> 'w db \<Rightarrow> Proposal \<times> 'w db" where
  "Proposal_create st au s =
     Proposal_save \<lparr>proposal_pk = None, author = au, status = st, proposal_data = None\<rparr> s"

subsection \<open>\<^verbatim>\<open>ConstitutionAction\<close>\<close>

definition ConstitutionAction_pass_action ::
  "ConstitutionAction \<Rightarrow> 'w db \<Rightarrow> error + (ConstitutionAction \<times> 'w db)" where
  "ConstitutionAction_pass_action self s =
     (case proposal self of
        None \<Rightarrow> Inl RelatedObjectDoesNotExist
      | Some p \<Rightarrow>
          (let (p, s) = Proposal_save (p\<lparr>status := PASSED\<rparr>) s
           in Inr (self\<lparr>proposal := Some p\<rparr>,
                   s\<lparr>trace := trace s @ [ActstreamSend (pk self)]\<rparr>)))"

definition ConstitutionAction_fail_action ::
  "ConstitutionAction \<Rightarrow> 'w db \<Rightarrow> error + (ConstitutionAction \<times> 'w db)" where
  "ConstitutionAction_fail_action self s =
     (case proposal self of
        None \<Rightarrow> Inl RelatedObjectDoesNotExist
      | Some p \<Rightarrow>
          (let (p, s) = Proposal_save (p\<lparr>status := FAILED\<rparr>) s
           in Inr (self\<lparr>proposal := Some p\<rparr>, s)))"

definition shouldCreate :: "ConstitutionAction \<Rightarrow> bool" where
  "shouldCreate self = (if has_ready (kind self) then ready self else not_pk (pk self))"

text \<open>\<^verbatim>\<open>super(ConstitutionAction, self).save(*args, **kwargs)\<close>.\<close>

definition ConstitutionAction_super_save ::
  "ConstitutionAction \<Rightarrow> 'w db \<Rightarrow> ConstitutionAction \<times> 'w db" where
  "ConstitutionAction_super_save self s =
     (let (self, t) = model_save pk (\<lambda>k a. a\<lparr>pk := k\<rparr>) self (ConstitutionAction_objects s)
      in (self, s\<lparr>ConstitutionAction_objects := t\<rparr>))"

definition ConstitutionAction_execute ::
  "ConstitutionAction \<Rightarrow> 'w db \<Rightarrow> error + (ConstitutionAction \<times> 'w db)" where
  "ConstitutionAction_execute self s =
     (case effect (kind self) (is_bundled self) (community self) (config s) of
        Inl e \<Rightarrow> Inl e
      | Inr (k, cfg) \<Rightarrow>
          ConstitutionAction_pass_action (self\<lparr>kind := k\<rparr>)
            (s\<lparr>config := cfg, trace := trace s @ [RealEffect (pk self)]\<rparr>))"

text \<open>
  \<^verbatim>\<open>execute_policy\<close> is imported from \<^verbatim>\<open>policyengine.views\<close> and is a parameter here: it
  gets the policy, the action and the flag \<^verbatim>\<open>is_first_evaluation\<close>, and may change the
  action and the store or raise. The loop calls it for each policy of the query.
\<close>

fun run_policies ::
  "(Policy \<Rightarrow> ('z BaseAction_scheme) \<Rightarrow> bool \<Rightarrow> 'w db \<Rightarrow> error + ('z BaseAction_scheme \<times> 'w db))
     \<Rightarrow> Policy list \<Rightarrow> 'z BaseAction_scheme \<Rightarrow> 'w db
     \<Rightarrow> error + ('z BaseAction_scheme \<times> 'w db)" where
  "run_policies execute_policy [] action s = Inr (action, s)"
| "run_policies execute_policy (policy # policies) action s =
     (case execute_policy policy action True
             (s\<lparr>trace := trace s @ [ExecutePolicy (policy_pk policy) (pk action)]\<rparr>) of
        Inl e \<Rightarrow> Inl e
      | Inr (action, s) \<Rightarrow> run_policies execute_policy policies action s)"

definition policies_of :: "Policy table \<Rightarrow> Community \<Rightarrow> Policy list" where
  "policies_of t c = filter (\<lambda>p. policy_community p = community_pk c) (map snd (rows t))"

text \<open>\<^verbatim>\<open>has_perm\<close> is the permission check of Django's user model, a parameter here. The
  constitution actions all belong to the app \<^verbatim>\<open>policyengine\<close>.\<close>

definition ConstitutionAction_save ::
  "(nat \<Rightarrow> string \<Rightarrow> bool)
     \<Rightarrow> (Policy \<Rightarrow> ConstitutionAction \<Rightarrow> bool \<Rightarrow> 'w db \<Rightarrow> error + (ConstitutionAction \<times> 'w db))
     \<Rightarrow> ConstitutionAction \<Rightarrow> 'w db \<Rightarrow> error + (ConstitutionAction \<times> 'w db)" where
  "ConstitutionAction_save has_perm execute_policy self s =
     (if shouldCreate self then
        (let (self, s) =
               (if data self = None
                then (let (d, s) = DataStore_create s in (self\<lparr>data := Some d\<rparr>, s))
                else (self, s))
         in case initiator self of
              None \<Rightarrow> Inl AttributeError
            | Some u \<Rightarrow>
                if has_perm u (''policyengine'' @ ''.add_'' @ action_codename (kind self))
                then
                  (let (self, s) =
                         (case proposal self of
                            Some p \<Rightarrow> (self\<lparr>proposal := Some (p\<lparr>status := PROPOSED\<rparr>)\<rparr>, s)
                          | None \<Rightarrow>
                              (let (p, s) = Proposal_create PROPOSED (initiator self) s
                               in (self\<lparr>proposal := Some p\<rparr>, s)));
                       (self, s) = ConstitutionAction_super_save self s
                   in if \<not> is_bundled self then
                        (if has_perm u (''policyengine'' @ ''.can_execute_''
                                         @ action_codename (kind self))
                         then ConstitutionAction_execute self s
                         else run_policies execute_policy
                                (policies_of (ConstitutionPolicy_objects (config s))
                                   (community self)) self s)
                      else Inr (self, s))
                else
                  (let (p, s) = Proposal_create FAILED (initiator self) s
                   in Inr (self\<lparr>proposal := Some p\<rparr>, s)))
      else
        (let (self, s) =
               (if not_pk (pk self)
                then (let (p, s) = Proposal_create FAILED (initiator self) s
                      in (self\<lparr>proposal := Some p\<rparr>, s))
                else (self, s))
         in Inr (ConstitutionAction_super_save self s)))"

subsection \<open>\<^verbatim>\<open>PlatformAction\<close>\<close>

text \<open>\<^verbatim>\<open>self.community.execute_platform_action(self)\<close> is the adapter of the external
  platform, a parameter here: it changes the platform or raises.\<close>

definition PlatformAction_pass_action ::
  "PlatformAction \<Rightarrow> 'w db \<Rightarrow> error + (PlatformAction \<times> 'w db)" where
  "PlatformAction_pass_action self s =
     (case proposal self of
        None \<Rightarrow> Inl RelatedObjectDoesNotExist
      | Some p \<Rightarrow>
          (let (p, s) = Proposal_save (p\<lparr>status := PASSED\<rparr>) s
           in Inr (self\<lparr>proposal := Some p\<rparr>,
                   s\<lparr>trace := trace s @ [ActstreamSend (pk self)]\<rparr>)))"

definition PlatformAction_fail_action ::
  "PlatformAction \<Rightarrow> 'w db \<Rightarrow> error + (PlatformAction \<times> 'w db)" where
  "PlatformAction_fail_action self s =
     (case proposal self of
        None \<Rightarrow> Inl RelatedObjectDoesNotExist
      | Some p \<Rightarrow>
          (let (p, s) = Proposal_save (p\<lparr>status := FAILED\<rparr>) s
           in Inr (self\<lparr>proposal := Some p\<rparr>, s)))"

definition PlatformAction_execute ::
  "(PlatformAction \<Rightarrow> 'w \<Rightarrow> error + 'w)
     \<Rightarrow> PlatformAction \<Rightarrow> 'w db \<Rightarrow> error + (PlatformAction \<times> 'w db)" where
  "PlatformAction_execute execute_platform_action self s =
     (case execute_platform_action self (world s) of
        Inl e \<Rightarrow> Inl e
      | Inr w \<Rightarrow>
          PlatformAction_pass_action self
            (s\<lparr>world := w, trace := trace s @ [RealEffect (pk self)]\<rparr>))"

definition PlatformAction_super_save ::
  "PlatformAction \<Rightarrow> 'w db \<Rightarrow> PlatformAction \<times> 'w db" where
  "PlatformAction_super_save self s =
     (let (self, t) = model_save pk (\<lambda>k a. a\<lparr>pk := k\<rparr>) self (PlatformAction_objects s)
      in (self, s\<lparr>PlatformAction_objects := t\<rparr>))"

definition PlatformAction_save ::
  "(nat \<Rightarrow> string \<Rightarrow> bool)
     \<Rightarrow> (Policy \<Rightarrow> PlatformAction \<Rightarrow> bool \<Rightarrow> 'w db \<Rightarrow> error + (PlatformAction \<times> 'w db))
     \<Rightarrow> (PlatformAction \<Rightarrow> 'w \<Rightarrow> error + 'w)
     \<Rightarrow> PlatformAction \<Rightarrow> 'w db \<Rightarrow> error + (PlatformAction \<times> 'w db)" where
  "PlatformAction_save has_perm execute_policy execute_platform_action self s =
     (if not_pk (pk self) then
        (let (self, s) =
               (if data self = None
                then (let (d, s) = DataStore_create s in (self\<lparr>data := Some d\<rparr>, s))
                else (self, s))
         in case initiator self of
              None \<Rightarrow> Inl RelatedObjectDoesNotExist
            | Some u \<Rightarrow>
                if has_perm u (app_label self @ ''.add_'' @ platform_codename self)
                then
                  (let (p, s) = Proposal_create PROPOSED (initiator self) s;
                       self = self\<lparr>proposal := Some p\<rparr>;
                       (self, s) = PlatformAction_super_save self s
                   in if \<not> is_bundled self then
                        (if has_perm u (app_name self @ ''.can_execute_''
                                         @ platform_codename self)
                         then PlatformAction_execute execute_platform_action self s
                         else run_policies execute_policy
                                (policies_of (PlatformPolicy_objects (config s))
                                   (community self)) self s)
                      else Inr (self, s))
                else
                  (let (p, s) = Proposal_create FAILED (initiator self) s;
                       self = self\<lparr>proposal := Some p\<rparr>
                   in Inr (PlatformAction_super_save self s)))
      else Inr (PlatformAction_super_save self s))"

subsection \<open>Bundles\<close>





text \<open>\<^verbatim>\<open>pass_action\<close> and \<^verbatim>\<open>fail_action\<close> of the two bundle classes have the same body.\<close>

definition Bundle_pass_action ::
  "'a ActionBundle \<Rightarrow> 'w db \<Rightarrow> error + ('a ActionBundle \<times> 'w db)" where
  "Bundle_pass_action self s =
     (case proposal self of
        None \<Rightarrow> Inl RelatedObjectDoesNotExist
      | Some p \<Rightarrow>
          (let (p, s) = Proposal_save (p\<lparr>status := PASSED\<rparr>) s
           in Inr (self\<lparr>proposal := Some p\<rparr>, s)))"

definition Bundle_fail_action ::
  "'a ActionBundle \<Rightarrow> 'w db \<Rightarrow> error + ('a ActionBundle \<times> 'w db)" where
  "Bundle_fail_action self s =
     (case proposal self of
        None \<Rightarrow> Inl RelatedObjectDoesNotExist
      | Some p \<Rightarrow>
          (let (p, s) = Proposal_save (p\<lparr>status := FAILED\<rparr>) s
           in Inr (self\<lparr>proposal := Some p\<rparr>, s)))"

text \<open>The status that the store holds for a proposal, and the effects in a trace.\<close>

definition stored_status :: "'w db \<Rightarrow> Proposal \<Rightarrow> status option" where
  "stored_status s p =
     (case proposal_pk p of
        None \<Rightarrow> None
      | Some k \<Rightarrow> map_option status (map_of (rows (Proposal_objects s)) k))"


subsection \<open>A small community\<close>

definition empty_table :: "'r table" where
  "empty_table = \<lparr>rows = [], next_pk = 1\<rparr>"

definition empty_db :: "unit db" where
  "empty_db =
     \<lparr>DataStore_objects = empty_table, Proposal_objects = empty_table,
      ConstitutionAction_objects = empty_table, PlatformAction_objects = empty_table,
      config = \<lparr>CommunityDoc_objects = empty_table, CommunityRole_objects = empty_table,
                PlatformPolicy_objects = empty_table, ConstitutionPolicy_objects = empty_table\<rparr>,
      world = (), trace = []\<rparr>"

definition the_community :: Community where
  "the_community = \<lparr>community_pk = 1, community_name = ''c'', platform = Some ''slack''\<rparr>"

text \<open>A new, unsaved constitution action of member 1, and a new platform action.\<close>

definition new_action :: "kind \<Rightarrow> ConstitutionAction" where
  "new_action k =
     \<lparr>pk = None, community = the_community, community_post = None, proposal = None,
      is_bundled = False, data = None, initiator = Some 1, kind = k, ready = False\<rparr>"

definition new_platform_action :: PlatformAction where
  "new_platform_action =
     \<lparr>pk = None, community = the_community, community_post = None, proposal = None,
      is_bundled = False, data = None, initiator = Some 1, community_revert = False,
      community_origin = False, platform_codename = ''slackpostmessage'',
      app_label = ''slack'', app_name = ''slackintegration''\<rparr>"

text \<open>An action as the store holds it after its creation: saved, with a proposal.\<close>

definition saved_action :: "nat \<Rightarrow> kind \<Rightarrow> status \<Rightarrow> ConstitutionAction" where
  "saved_action n k st =
     (new_action k)\<lparr>pk := Some n,
       proposal := Some \<lparr>proposal_pk = Some n, author = Some 1, status = st,
                         proposal_data = None\<rparr>\<rparr>"

definition saved_platform_action :: "nat \<Rightarrow> status \<Rightarrow> PlatformAction" where
  "saved_platform_action n st =
     new_platform_action\<lparr>pk := Some n,
       proposal := Some \<lparr>proposal_pk = Some n, author = Some 1, status = st,
                         proposal_data = None\<rparr>\<rparr>"

text \<open>Permission checks: nobody may do anything, or everybody may do everything.\<close>

definition deny_all :: "nat \<Rightarrow> string \<Rightarrow> bool" where
  "deny_all u perm = False"

definition allow_all :: "nat \<Rightarrow> string \<Rightarrow> bool" where
  "allow_all u perm = True"

text \<open>A policy engine and a platform adapter that do nothing.\<close>

definition no_policy ::
  "Policy \<Rightarrow> 'a \<Rightarrow> bool \<Rightarrow> unit db \<Rightarrow> error + ('a \<times> unit db)" where
  "no_policy policy action first s = Inr (action, s)"

definition no_platform :: "PlatformAction \<Rightarrow> unit \<Rightarrow> error + unit" where
  "no_platform action w = Inr w"

text \<open>What an operation on an action or bundle leaves behind: the status on the
  instance's proposal, and the status that the store holds for that proposal. Both are
  \<open>None\<close> when the operation raised.\<close>

definition proposal_status_of ::
  "error + ('z BaseAction_scheme \<times> 'w db) \<Rightarrow> status option" where
  "proposal_status_of r =
     (case r of Inl e \<Rightarrow> None | Inr (a, s) \<Rightarrow> map_option status (proposal a))"

definition stored_status_of ::
  "error + ('z BaseAction_scheme \<times> 'w db) \<Rightarrow> status option" where
  "stored_status_of r =
     (case r of
        Inl e \<Rightarrow> None
      | Inr (a, s) \<Rightarrow> (case proposal a of None \<Rightarrow> None | Some p \<Rightarrow> stored_status s p))"

text \<open>A saved bundle of the given kind and actions.\<close>

definition bundle_of :: "bundle_type \<Rightarrow> 'a list \<Rightarrow> 'a ActionBundle" where
  "bundle_of t actions =
     \<lparr>pk = Some 1, community = the_community, community_post = None, proposal = None,
      is_bundled = False, data = None, bundled_actions = actions, bundle_type = t\<rparr>"

text \<open>The action and the store after member 1, who may do everything, has added a
  document to the empty community.\<close>

definition after_bypass :: "ConstitutionAction \<times> unit db" where
  "after_bypass =
     projr (ConstitutionAction_save allow_all no_policy
              (new_action (PolicykitAddCommunityDoc ''rules'' ''be kind'')) empty_db)"







section \<open>Properties\<close>

subsection \<open>The JSON codec and the DataStore\<close>


lemma update_fresh: "k \<notin> fst ` set al \<Longrightarrow> AList.update k v al = al @ [(k, v)]"
  by (induction al) auto

lemma foldl_setitem_distinct:
  "distinct (map fst (d @ ps)) \<Longrightarrow> foldl (\<lambda>d (k, v). dict_setitem d k v) d ps = d @ ps"
proof (induction ps arbitrary: d)
  case Nil
  then show ?case by simp
next
  case (Cons p ps)
  obtain k v where p: "p = (k, v)" by (cases p)
  from Cons.prems have fresh: "k \<notin> fst ` set d" by (auto simp: p)
  from Cons.prems have "distinct (map fst ((d @ [(k, v)]) @ ps))" by (auto simp: p)
  from Cons.IH [OF this] show ?case
    by (simp add: p dict_setitem_def update_fresh [OF fresh])
qed

lemma dict_of_pairs_distinct: "distinct (map fst ps) \<Longrightarrow> dict_of_pairs ps = ps"
  using foldl_setitem_distinct [of "[]" ps] by (simp add: dict_of_pairs_def)

lemma foldl_setitem_keys:
  "distinct (map fst d) \<Longrightarrow> distinct (map fst (foldl (\<lambda>d (k, v). dict_setitem d k v) d ps))"
  by (induction ps arbitrary: d) (auto simp: dict_setitem_def distinct_update)

lemma distinct_dict_of_pairs: "distinct (map fst (dict_of_pairs ps))"
  using foldl_setitem_keys [of "[]" ps] by (simp add: dict_of_pairs_def)

lemma set_update_subset: "set (AList.update k v al) \<subseteq> insert (k, v) (set al)"
  by (induction al) auto

lemma foldl_setitem_set:
  "set (foldl (\<lambda>d (k, v). dict_setitem d k v) d ps) \<subseteq> set d \<union> set ps"
proof (induction ps arbitrary: d)
  case Nil
  then show ?case by simp
next
  case (Cons p ps)
  obtain k v where p: "p = (k, v)" by (cases p)
  have "set (dict_setitem d k v) \<subseteq> insert (k, v) (set d)"
    by (simp add: dict_setitem_def set_update_subset)
  with Cons.IH [of "dict_setitem d k v"] show ?case
    by (auto simp: p)
qed

lemma set_dict_of_pairs: "set (dict_of_pairs ps) \<subseteq> set ps"
  using foldl_setitem_set [of "[]" ps] by (simp add: dict_of_pairs_def)


lemma recode_loaded:
  assumes "loaded d"
  shows "dict_of_pairs (map (map_prod KStr json_loads) (map (map_prod json_key json_dumps) d)) = d"
proof -
  have "map (map_prod KStr json_loads) (map (map_prod json_key json_dumps) d) = map id d"
    unfolding map_map
  proof (rule map_cong [OF refl])
    fix p assume "p \<in> set d"
    with assms show "(map_prod KStr json_loads \<circ> map_prod json_key json_dumps) p = id p"
      by (cases p) (auto simp: loaded_def)
  qed
  with assms show ?thesis by (simp add: dict_of_pairs_distinct loaded_def)
qed

lemma loads_dumps_loads: "json_loads (json_dumps (json_loads j)) = json_loads j"
proof (induction j)
  case (JArr xs)
  then show ?case by (simp add: map_idI)
next
  case (JObj ms)
  let ?d = "dict_of_pairs (map (map_prod KStr json_loads) ms)"
  have "loaded ?d"
    unfolding loaded_def
  proof (intro conjI ballI)
    show "distinct (map fst ?d)" by (rule distinct_dict_of_pairs)
  next
    fix p assume "p \<in> set ?d"
    then have "p \<in> set (map (map_prod KStr json_loads) ms)"
      using set_dict_of_pairs by blast
    then obtain m where m: "m \<in> set ms" "p = map_prod KStr json_loads m" by auto
    obtain s j where sj: "m = (s, j)" by (cases m)
    from JObj.IH [of m j] m sj have "json_loads (json_dumps (json_loads j)) = json_loads j"
      by simp
    with m sj show "case p of (k, v) \<Rightarrow> (\<exists>s. k = KStr s) \<and> json_loads (json_dumps v) = v"
      by simp
  qed
  from recode_loaded [OF this] show ?case by simp
qed simp_all


lemma loaded_dict_of_pairs: "loaded (dict_of_pairs (map (map_prod KStr json_loads) ms))"
  unfolding loaded_def
proof (intro conjI ballI)
  show "distinct (map fst (dict_of_pairs (map (map_prod KStr json_loads) ms)))"
    by (rule distinct_dict_of_pairs)
next
  fix p assume "p \<in> set (dict_of_pairs (map (map_prod KStr json_loads) ms))"
  then have "p \<in> set (map (map_prod KStr json_loads) ms)"
    using set_dict_of_pairs by blast
  then obtain m where "p = map_prod KStr json_loads m" by auto
  moreover obtain s j where "m = (s, j)" by (cases m)
  ultimately show "case p of (k, v) \<Rightarrow> (\<exists>s. k = KStr s) \<and> json_loads (json_dumps v) = v"
    by (simp add: loads_dumps_loads)
qed

lemma loaded_get_data_store: "loaded (get_data_store self)"
  by (cases "data_store self")
     (simp_all add: get_data_store_def loaded_dict_of_pairs, simp add: loaded_def)

lemma loaded_delete:
  assumes "loaded d"
  shows "loaded (AList.delete k d)"
proof -
  from assms have "distinct (map fst (AList.delete k d))"
    by (simp add: loaded_def distinct_delete)
  moreover have "set (AList.delete k d) \<subseteq> set d"
    by (auto simp: AList.delete_eq)
  ultimately show ?thesis
    using assms unfolding loaded_def by blast
qed

lemma get_set_data_store_loaded:
  "loaded d \<Longrightarrow> get_data_store (set_data_store self d) = d"
  by (simp add: get_data_store_def set_data_store_def recode_loaded del: map_map)

lemma loaded_setitem:
  assumes "loaded d" and "json_loads (json_dumps v) = v"
  shows "loaded (dict_setitem d (KStr s) v)"
  unfolding loaded_def dict_setitem_def
proof (intro conjI ballI)
  from assms(1) show "distinct (map fst (AList.update (KStr s) v d))"
    by (simp add: loaded_def distinct_update)
next
  fix p assume "p \<in> set (AList.update (KStr s) v d)"
  then have "p = (KStr s, v) \<or> p \<in> set d"
    using set_update_subset by fastforce
  with assms show "case p of (k, v) \<Rightarrow> (\<exists>s. k = KStr s) \<and> json_loads (json_dumps v) = v"
    by (auto simp: loaded_def)
qed

text \<open>Storing a dictionary with string keys and reading it back: every value has gone
  through the codec once.\<close>

lemma map_of_recode:
  assumes "distinct (map fst d)" and "\<forall>(k, v) \<in> set d. \<exists>s. k = KStr s"
  shows "map_of (get_data_store (set_data_store self d)) =
         map_option (\<lambda>v. json_loads (json_dumps v)) \<circ> map_of d"
proof -
  let ?rt = "\<lambda>v. json_loads (json_dumps v)"
  have eq: "map (map_prod KStr json_loads) (map (map_prod json_key json_dumps) d) =
        map (\<lambda>(k, v). (k, ?rt v)) d"
    unfolding map_map
  proof (rule map_cong [OF refl])
    fix p assume "p \<in> set d"
    with assms(2) show "(map_prod KStr json_loads \<circ> map_prod json_key json_dumps) p =
        (case p of (k, v) \<Rightarrow> (k, ?rt v))"
      by (cases p) auto
  qed
  have fsts: "map fst (map (\<lambda>(k, v). (k, ?rt v)) d) = map fst d"
    by (induction d) auto
  have "distinct (map fst (map (\<lambda>(k, v). (k, ?rt v)) d))"
    unfolding fsts by (rule assms(1))
  then have "dict_of_pairs (map (\<lambda>(k, v). (k, ?rt v)) d) = map (\<lambda>(k, v). (k, ?rt v)) d"
    by (rule dict_of_pairs_distinct)
  with eq show ?thesis
    by (simp add: get_data_store_def set_data_store_def map_of_map del: map_map)
qed

lemma map_of_get_after_set:
  "map_of (get_data_store (snd (DataStore_set self (KStr s) v))) =
   (map_of (get_data_store self))(KStr s \<mapsto> json_loads (json_dumps v))"
proof -
  let ?d = "get_data_store self"
  let ?rt = "\<lambda>v. json_loads (json_dumps v)"
  have ld: "loaded ?d" by (rule loaded_get_data_store)
  have d1: "distinct (map fst (dict_setitem ?d (KStr s) v))"
    using ld by (simp add: loaded_def dict_setitem_def distinct_update)
  have d2: "\<forall>(k, v) \<in> set (dict_setitem ?d (KStr s) v). \<exists>s. k = KStr s"
  proof (intro ballI)
    fix p assume "p \<in> set (dict_setitem ?d (KStr s) v)"
    then have "p = (KStr s, v) \<or> p \<in> set ?d"
      using set_update_subset by (fastforce simp: dict_setitem_def)
    with ld show "case p of (k, v) \<Rightarrow> \<exists>s. k = KStr s"
      by (auto simp: loaded_def)
  qed
  have fixed: "map_option ?rt (map_of ?d k) = map_of ?d k" for k
  proof (cases "map_of ?d k")
    case None
    then show ?thesis by simp
  next
    case (Some x)
    then have "(k, x) \<in> set ?d" by (rule map_of_SomeD)
    with ld have "?rt x = x" by (auto simp: loaded_def)
    with Some show ?thesis by simp
  qed
  have step: "map_of (get_data_store (snd (DataStore_set self (KStr s) v))) =
      map_option ?rt \<circ> map_of (dict_setitem ?d (KStr s) v)"
    using map_of_recode [OF d1 d2] by (simp add: DataStore_set_def Let_def)
  show ?thesis
  proof (rule ext)
    fix k
    show "map_of (get_data_store (snd (DataStore_set self (KStr s) v))) k =
      ((map_of ?d)(KStr s \<mapsto> ?rt v)) k"
      using fixed [of k] by (simp add: step dict_setitem_def update_conv')
  qed
qed

lemma get_data_store_remove:
  "get_data_store (snd (DataStore_remove self k)) = AList.delete k (get_data_store self)"
  by (simp add: DataStore_remove_def dict_pop_def Let_def get_set_data_store_loaded
      loaded_delete loaded_get_data_store)

lemma fst_remove:
  "fst (DataStore_remove self k) = truthy (dict_get (get_data_store self) k)"
  by (simp add: DataStore_remove_def dict_pop_def Let_def)

text \<open>
  Claim C9, as the code has it. For a string key \<open>s\<close> and a value \<open>v\<close> that the JSON codec
  gives back unchanged, \<^verbatim>\<open>get(s)\<close> after \<^verbatim>\<open>set(s, v)\<close> returns \<open>v\<close>. \<^verbatim>\<open>get\<close> returns
  \<^verbatim>\<open>None\<close> for every key of a new store and for a key that has been removed. \<^verbatim>\<open>set\<close> on a
  string key and \<^verbatim>\<open>remove\<close> on any key leave what \<^verbatim>\<open>get\<close> returns for every other key
  unchanged.
\<close>

theorem DataStore_get_set_remove:
  "(json_loads (json_dumps v) = v \<longrightarrow>
      DataStore_get (snd (DataStore_set self (KStr s) v)) (KStr s) = v)
   \<and> DataStore_get \<lparr>data_store = EmptyText\<rparr> k = PNone
   \<and> DataStore_get (snd (DataStore_remove self k)) k = PNone
   \<and> (k' \<noteq> KStr s \<longrightarrow>
        DataStore_get (snd (DataStore_set self (KStr s) v)) k' = DataStore_get self k')
   \<and> (k' \<noteq> k \<longrightarrow>
        DataStore_get (snd (DataStore_remove self k)) k' = DataStore_get self k')"
proof (intro conjI impI)
  assume "json_loads (json_dumps v) = v"
  then show "DataStore_get (snd (DataStore_set self (KStr s) v)) (KStr s) = v"
    by (simp add: DataStore_get_def dict_get_def map_of_get_after_set)
next
  show "DataStore_get \<lparr>data_store = EmptyText\<rparr> k = PNone"
    by (simp add: DataStore_get_def dict_get_def get_data_store_def)
next
  show "DataStore_get (snd (DataStore_remove self k)) k = PNone"
    by (simp add: DataStore_get_def dict_get_def get_data_store_remove delete_conv')
next
  assume "k' \<noteq> KStr s"
  then show "DataStore_get (snd (DataStore_set self (KStr s) v)) k' = DataStore_get self k'"
    by (simp add: DataStore_get_def dict_get_def map_of_get_after_set)
next
  assume "k' \<noteq> k"
  then show "DataStore_get (snd (DataStore_remove self k)) k' = DataStore_get self k'"
    by (simp add: DataStore_get_def dict_get_def get_data_store_remove delete_conv')
qed

theorem DataStore_get_set_remove_witness:
  "json_loads (json_dumps (PList [PInt 1, PStr ''x''])) = PList [PInt 1, PStr ''x'']
   \<and> KStr ''b'' \<noteq> KStr ''a''
   \<and> DataStore_get (snd (DataStore_set \<lparr>data_store = ObjText [(''b'', JInt 7)]\<rparr> (KStr ''a'')
        (PList [PInt 1, PStr ''x'']))) (KStr ''a'') = PList [PInt 1, PStr ''x'']
   \<and> DataStore_get (snd (DataStore_set \<lparr>data_store = ObjText [(''b'', JInt 7)]\<rparr> (KStr ''a'')
        (PList [PInt 1, PStr ''x'']))) (KStr ''b'') = PInt 7
   \<and> DataStore_get (snd (DataStore_remove \<lparr>data_store = ObjText [(''b'', JInt 7)]\<rparr> (KStr ''a'')))
        (KStr ''b'') = PInt 7"
  using DataStore_get_set_remove [of "PList [PInt 1, PStr ''x'']"
      "\<lparr>data_store = ObjText [(''b'', JInt 7)]\<rparr>" "''a''" "KStr ''a''" "KStr ''b''"]
  by (simp add: DataStore_get_def dict_get_def get_data_store_def dict_of_pairs_def dict_setitem_def)

text \<open>
  Claim C9 as stated fails for an integer key: \<^verbatim>\<open>set(1, 'a')\<close> writes the member
  \<^verbatim>\<open>"1"\<close>, and \<^verbatim>\<open>get(1)\<close> looks the integer up among string keys.
\<close>

theorem DataStore_int_key_counterexample:
  "DataStore_get (snd (DataStore_set \<lparr>data_store = EmptyText\<rparr> (KInt 1) (PStr ''a''))) (KInt 1)
     \<noteq> PStr ''a''"
  by code_simp

text \<open>
  Claim C10. After \<^verbatim>\<open>remove(k)\<close> the key \<open>k\<close> is not in the store, and \<^verbatim>\<open>remove(k)\<close>
  returns \<^verbatim>\<open>True\<close> exactly when \<open>k\<close> was in the store with a truthy value: it returns
  \<^verbatim>\<open>False\<close> when \<open>k\<close> was absent and when the value removed was falsy.
\<close>

theorem DataStore_remove_result:
  "k \<notin> fst ` set (get_data_store (snd (DataStore_remove self k)))
   \<and> (fst (DataStore_remove self k) \<longleftrightarrow>
        (\<exists>v. map_of (get_data_store self) k = Some v \<and> truthy v))"
proof
  have "map_of (get_data_store (snd (DataStore_remove self k))) k = None"
    by (simp add: get_data_store_remove delete_conv')
  then show "k \<notin> fst ` set (get_data_store (snd (DataStore_remove self k)))"
    by (simp add: map_of_eq_None_iff)
next
  show "fst (DataStore_remove self k) \<longleftrightarrow>
        (\<exists>v. map_of (get_data_store self) k = Some v \<and> truthy v)"
    by (cases "map_of (get_data_store self) k") (simp_all add: fst_remove dict_get_def)
qed


theorem DataStore_remove_result_witness:
  "KStr ''a'' \<notin> fst ` set (get_data_store (snd (DataStore_remove
       \<lparr>data_store = ObjText [(''a'', JInt 0)]\<rparr> (KStr ''a''))))
   \<and> \<not> fst (DataStore_remove \<lparr>data_store = ObjText [(''a'', JInt 0)]\<rparr> (KStr ''a''))
   \<and> fst (DataStore_remove \<lparr>data_store = ObjText [(''a'', JInt 5)]\<rparr> (KStr ''a''))"
  using DataStore_remove_result [of "KStr ''a''" "\<lparr>data_store = ObjText [(''a'', JInt 0)]\<rparr>"]
    DataStore_remove_result [of "KStr ''a''" "\<lparr>data_store = ObjText [(''a'', JInt 5)]\<rparr>"]
  by (simp add: get_data_store_def dict_of_pairs_def dict_setitem_def)

subsection \<open>Votes\<close>

lemma tally_nonempty_users:
  assumes "us \<noteq> []"
  shows "get_all_boolean_votes bs p (Some us) =
           filter (\<lambda>v. proposal_id v = p \<and> user_id v \<in> set us) bs"
    and "get_yes_votes bs p (Some us) =
           filter (\<lambda>v. boolean_value v = Some True \<and> proposal_id v = p \<and> user_id v \<in> set us) bs"
    and "get_no_votes bs p (Some us) =
           filter (\<lambda>v. boolean_value v = Some False \<and> proposal_id v = p \<and> user_id v \<in> set us) bs"
    and "get_all_number_votes ns p (Some us) =
           filter (\<lambda>v. proposal_id v = p \<and> user_id v \<in> set us) ns"
    and "get_one_number_votes ns p n (Some us) =
           filter (\<lambda>v. number_value v = Some n \<and> proposal_id v = p \<and> user_id v \<in> set us) ns"
  using assms
  by (simp_all add: get_all_boolean_votes_def get_yes_votes_def get_no_votes_def
      get_all_number_votes_def get_one_number_votes_def users_truthy_def user_in_def)

text \<open>
  Claim C8 at an empty member set. Member 1 voted yes and member 2 voted no on proposal 7,
  member 1 gave the number 3. With \<^verbatim>\<open>users=[]\<close> the test \<^verbatim>\<open>if users:\<close> fails and the
  queries return the votes of all members.
\<close>

theorem tally_empty_users:
  "get_all_boolean_votes
     [\<lparr>user_id = 1, proposal_id = 7, vote_time = 0, boolean_value = Some True\<rparr>,
      \<lparr>user_id = 2, proposal_id = 7, vote_time = 1, boolean_value = Some False\<rparr>] 7 (Some [])
     = [\<lparr>user_id = 1, proposal_id = 7, vote_time = 0, boolean_value = Some True\<rparr>,
        \<lparr>user_id = 2, proposal_id = 7, vote_time = 1, boolean_value = Some False\<rparr>]
   \<and> get_yes_votes
     [\<lparr>user_id = 1, proposal_id = 7, vote_time = 0, boolean_value = Some True\<rparr>,
      \<lparr>user_id = 2, proposal_id = 7, vote_time = 1, boolean_value = Some False\<rparr>] 7 (Some [])
     = [\<lparr>user_id = 1, proposal_id = 7, vote_time = 0, boolean_value = Some True\<rparr>]
   \<and> get_no_votes
     [\<lparr>user_id = 1, proposal_id = 7, vote_time = 0, boolean_value = Some True\<rparr>,
      \<lparr>user_id = 2, proposal_id = 7, vote_time = 1, boolean_value = Some False\<rparr>] 7 (Some [])
     = [\<lparr>user_id = 2, proposal_id = 7, vote_time = 1, boolean_value = Some False\<rparr>]
   \<and> get_all_number_votes
     [\<lparr>user_id = 1, proposal_id = 7, vote_time = 0, number_value = Some 3\<rparr>] 7 (Some [])
     = [\<lparr>user_id = 1, proposal_id = 7, vote_time = 0, number_value = Some 3\<rparr>]
   \<and> get_one_number_votes
     [\<lparr>user_id = 1, proposal_id = 7, vote_time = 0, number_value = Some 3\<rparr>] 7 3 (Some [])
     = [\<lparr>user_id = 1, proposal_id = 7, vote_time = 0, number_value = Some 3\<rparr>]"
  by (simp add: get_all_boolean_votes_def get_yes_votes_def get_no_votes_def
      get_all_number_votes_def get_one_number_votes_def users_truthy_def)

lemma filter_key_le_1:
  "distinct (map f xs) \<Longrightarrow> length (filter (\<lambda>x. f x = c) xs) \<le> 1"
proof (induction xs)
  case Nil
  then show ?case by simp
next
  case (Cons x xs)
  show ?case
  proof (cases "f x = c")
    case True
    with Cons.prems have "c \<notin> f ` set xs" by simp
    then have "\<forall>y \<in> set xs. f y \<noteq> c" by blast
    then have "filter (\<lambda>x. f x = c) xs = []" by (simp add: filter_empty_conv)
    with True show ?thesis by simp
  next
    case False
    with Cons show ?thesis by simp
  qed
qed

lemma votes_of_le_1:
  assumes "one_vote_each bs"
  shows "length (votes_of bs p m) \<le> 1"
proof -
  have "votes_of bs p m = filter (\<lambda>v. (proposal_id v, user_id v) = (p, m)) bs"
    by (simp add: votes_of_def)
  with filter_key_le_1 [of "\<lambda>v. (proposal_id v, user_id v)" bs "(p, m)"] assms
  show ?thesis by (simp add: one_vote_each_def)
qed

text \<open>
  Claim C7. If no member has two votes on one proposal before a vote is cast, none has
  after; the member who cast it has exactly one vote on the proposal, with the value cast.
\<close>

theorem castVote_one_vote:
  assumes "one_vote_each bs"
  shows "one_vote_each (castVote bs p m val now)
     \<and> length (votes_of (castVote bs p m val now) p m) = 1
     \<and> (\<forall>v \<in> set (votes_of (castVote bs p m val now) p m). boolean_value v = Some val)"
proof (cases "votes_of bs p m = []")
  case True
  then have none: "\<forall>v \<in> set bs. \<not> (proposal_id v = p \<and> user_id v = m)"
    by (simp add: votes_of_def filter_empty_conv)
  then have "(p, m) \<notin> set (map (\<lambda>v. (proposal_id v, user_id v)) bs)"
    by auto
  with assms have "one_vote_each (castVote bs p m val now)"
    using True by (simp add: castVote_def one_vote_each_def)
  moreover have "votes_of (castVote bs p m val now) p m =
      [\<lparr>user_id = m, proposal_id = p, vote_time = now, boolean_value = Some val\<rparr>]"
    using True by (simp add: castVote_def votes_of_def)
  ultimately show ?thesis by simp
next
  case False
  let ?f = "\<lambda>v. if proposal_id v = p \<and> user_id v = m then v\<lparr>boolean_value := Some val\<rparr> else v"
  have cast: "castVote bs p m val now = map ?f bs"
    using False by (simp add: castVote_def)
  have keys: "map (\<lambda>v. (proposal_id v, user_id v)) (map ?f bs) =
      map (\<lambda>v. (proposal_id v, user_id v)) bs"
    by (induction bs) auto
  have votes: "votes_of (map ?f bs) p m = map (\<lambda>v. v\<lparr>boolean_value := Some val\<rparr>) (votes_of bs p m)"
    by (induction bs) (auto simp: votes_of_def)
  from assms have one: "one_vote_each (map ?f bs)"
    unfolding one_vote_each_def keys .
  from votes_of_le_1 [OF assms, of p m] False have "length (votes_of bs p m) = 1"
    by (cases "votes_of bs p m") auto
  with one show ?thesis
    by (auto simp: cast votes)
qed

theorem castVote_one_vote_witness:
  "one_vote_each [\<lparr>user_id = 1, proposal_id = 7, vote_time = 0, boolean_value = Some True\<rparr>]
   \<and> castVote [\<lparr>user_id = 1, proposal_id = 7, vote_time = 0, boolean_value = Some True\<rparr>]
        7 1 False 5
      = [\<lparr>user_id = 1, proposal_id = 7, vote_time = 0, boolean_value = Some False\<rparr>]
   \<and> one_vote_each (castVote
        [\<lparr>user_id = 1, proposal_id = 7, vote_time = 0, boolean_value = Some True\<rparr>] 7 1 False 5)
   \<and> length (votes_of (castVote
        [\<lparr>user_id = 1, proposal_id = 7, vote_time = 0, boolean_value = Some True\<rparr>] 7 1 False 5)
        7 1) = 1"
proof -
  have h: "one_vote_each
      [\<lparr>user_id = 1, proposal_id = 7, vote_time = 0, boolean_value = Some True\<rparr>]"
    by (simp add: one_vote_each_def)
  have c: "castVote [\<lparr>user_id = 1, proposal_id = 7, vote_time = 0, boolean_value = Some True\<rparr>]
        7 1 False 5
      = [\<lparr>user_id = 1, proposal_id = 7, vote_time = 0, boolean_value = Some False\<rparr>]"
    by (simp add: castVote_def votes_of_def)
  from castVote_one_vote [OF h, of 7 1 False 5] h c show ?thesis
    by simp
qed

subsection \<open>Creating data stores and saving proposals\<close>

lemma DataStore_create_frame:
  "Proposal_objects (snd (DataStore_create s)) = Proposal_objects s"
  "ConstitutionAction_objects (snd (DataStore_create s)) = ConstitutionAction_objects s"
  "PlatformAction_objects (snd (DataStore_create s)) = PlatformAction_objects s"
  "config (snd (DataStore_create s)) = config s"
  "world (snd (DataStore_create s)) = world s"
  "trace (snd (DataStore_create s)) = trace s"
  by (simp_all add: DataStore_create_def Let_def)

lemma DataStore_create_key: "fst (DataStore_create s) = next_pk (DataStore_objects s)"
  by (simp add: DataStore_create_def Let_def)

lemma DataStore_create_rows:
  "map_of (rows (DataStore_objects (snd (DataStore_create s)))) k =
     (if k = next_pk (DataStore_objects s) then Some \<lparr>data_store = EmptyText\<rparr>
      else map_of (rows (DataStore_objects s)) k)"
  by (simp add: DataStore_create_def Let_def update_conv')

lemma DataStore_create_next:
  "next_pk (DataStore_objects (snd (DataStore_create s))) = Suc (next_pk (DataStore_objects s))"
  by (simp add: DataStore_create_def Let_def)

lemma Proposal_save_frame:
  "ConstitutionAction_objects (snd (Proposal_save p s)) = ConstitutionAction_objects s"
  "PlatformAction_objects (snd (Proposal_save p s)) = PlatformAction_objects s"
  "config (snd (Proposal_save p s)) = config s"
  "world (snd (Proposal_save p s)) = world s"
  "trace (snd (Proposal_save p s)) = trace s"
  by (simp_all add: Proposal_save_def Let_def case_prod_unfold DataStore_create_frame)

lemma Proposal_save_fields:
  "status (fst (Proposal_save p s)) = status p"
  "author (fst (Proposal_save p s)) = author p"
  by (cases "proposal_pk p";
      simp add: Proposal_save_def Let_def case_prod_unfold model_save_def)+

lemma Proposal_save_pk:
  "proposal_pk (fst (Proposal_save p s)) =
     Some (case proposal_pk p of None \<Rightarrow> next_pk (Proposal_objects s) | Some k \<Rightarrow> k)"
  by (cases "proposal_pk p")
     (simp_all add: Proposal_save_def Let_def case_prod_unfold model_save_def
        DataStore_create_frame)

lemma Proposal_save_rows:
  "map_of (rows (Proposal_objects (snd (Proposal_save p s)))) k =
     (if proposal_pk (fst (Proposal_save p s)) = Some k then Some (fst (Proposal_save p s))
      else map_of (rows (Proposal_objects s)) k)"
  by (cases "proposal_pk p")
     (auto simp: Proposal_save_def Let_def case_prod_unfold model_save_def
        DataStore_create_frame update_conv')

lemma Proposal_save_stored:
  "stored_status (snd (Proposal_save p s)) (fst (Proposal_save p s)) = Some (status p)"
  by (simp add: stored_status_def Proposal_save_pk Proposal_save_rows Proposal_save_fields)


lemma Proposal_save_DataStore_rows:
  assumes "map_of (rows (DataStore_objects s)) k = Some d" and "k < next_pk (DataStore_objects s)"
  shows "map_of (rows (DataStore_objects (snd (Proposal_save p s)))) k = Some d"
  using assms
  by (simp add: Proposal_save_def Let_def case_prod_unfold DataStore_create_rows)

subsection \<open>\<^verbatim>\<open>pass_action\<close> and \<^verbatim>\<open>fail_action\<close>\<close>

lemma ConstitutionAction_pass_action_Some:
  assumes "proposal a = Some p"
  shows "ConstitutionAction_pass_action a s =
     Inr (a\<lparr>proposal := Some (fst (Proposal_save (p\<lparr>status := PASSED\<rparr>) s))\<rparr>,
          (snd (Proposal_save (p\<lparr>status := PASSED\<rparr>) s))
            \<lparr>trace := trace s @ [ActstreamSend (pk a)]\<rparr>)"
  using assms
  by (simp add: ConstitutionAction_pass_action_def Let_def case_prod_unfold Proposal_save_frame)

lemma ConstitutionAction_fail_action_Some:
  assumes "proposal a = Some p"
  shows "ConstitutionAction_fail_action a s =
     Inr (a\<lparr>proposal := Some (fst (Proposal_save (p\<lparr>status := FAILED\<rparr>) s))\<rparr>,
          snd (Proposal_save (p\<lparr>status := FAILED\<rparr>) s))"
  using assms
  by (simp add: ConstitutionAction_fail_action_def Let_def case_prod_unfold)

lemma PlatformAction_pass_action_Some:
  assumes "proposal a = Some p"
  shows "PlatformAction_pass_action a s =
     Inr (a\<lparr>proposal := Some (fst (Proposal_save (p\<lparr>status := PASSED\<rparr>) s))\<rparr>,
          (snd (Proposal_save (p\<lparr>status := PASSED\<rparr>) s))
            \<lparr>trace := trace s @ [ActstreamSend (pk a)]\<rparr>)"
  using assms
  by (simp add: PlatformAction_pass_action_def Let_def case_prod_unfold Proposal_save_frame)

lemma PlatformAction_fail_action_Some:
  assumes "proposal a = Some p"
  shows "PlatformAction_fail_action a s =
     Inr (a\<lparr>proposal := Some (fst (Proposal_save (p\<lparr>status := FAILED\<rparr>) s))\<rparr>,
          snd (Proposal_save (p\<lparr>status := FAILED\<rparr>) s))"
  using assms
  by (simp add: PlatformAction_fail_action_def Let_def case_prod_unfold)

lemma Bundle_pass_action_Some:
  assumes "proposal b = Some p"
  shows "Bundle_pass_action b s =
     Inr (b\<lparr>proposal := Some (fst (Proposal_save (p\<lparr>status := PASSED\<rparr>) s))\<rparr>,
          snd (Proposal_save (p\<lparr>status := PASSED\<rparr>) s))"
  using assms
  by (simp add: Bundle_pass_action_def Let_def case_prod_unfold)

lemma Bundle_fail_action_Some:
  assumes "proposal b = Some p"
  shows "Bundle_fail_action b s =
     Inr (b\<lparr>proposal := Some (fst (Proposal_save (p\<lparr>status := FAILED\<rparr>) s))\<rparr>,
          snd (Proposal_save (p\<lparr>status := FAILED\<rparr>) s))"
  using assms
  by (simp add: Bundle_fail_action_def Let_def case_prod_unfold)

lemma stored_status_trace [simp]:
  "stored_status (s\<lparr>trace := t\<rparr>) p = stored_status s p"
  by (simp add: stored_status_def split: option.splits)

text \<open>
  Claim C3, as the code has it. \<^verbatim>\<open>pass_action\<close> sets the status of the proposal to
  \<^verbatim>\<open>passed\<close> and \<^verbatim>\<open>fail_action\<close> sets it to \<^verbatim>\<open>failed\<close>, on the instance and in the store,
  whatever the status was: for a constitution action \<open>ca\<close>, a platform action \<open>pa\<close> and a
  bundle \<open>b\<close> that have a proposal.
\<close>

theorem pass_fail_action_status:
  "(proposal ca = Some p \<longrightarrow>
      proposal_status_of (ConstitutionAction_pass_action ca s) = Some PASSED
    \<and> stored_status_of (ConstitutionAction_pass_action ca s) = Some PASSED
    \<and> proposal_status_of (ConstitutionAction_fail_action ca s) = Some FAILED
    \<and> stored_status_of (ConstitutionAction_fail_action ca s) = Some FAILED)
   \<and> (proposal pa = Some p \<longrightarrow>
      proposal_status_of (PlatformAction_pass_action pa s) = Some PASSED
    \<and> stored_status_of (PlatformAction_pass_action pa s) = Some PASSED
    \<and> proposal_status_of (PlatformAction_fail_action pa s) = Some FAILED
    \<and> stored_status_of (PlatformAction_fail_action pa s) = Some FAILED)
   \<and> (proposal b = Some p \<longrightarrow>
      proposal_status_of (Bundle_pass_action b s) = Some PASSED
    \<and> stored_status_of (Bundle_pass_action b s) = Some PASSED
    \<and> proposal_status_of (Bundle_fail_action b s) = Some FAILED
    \<and> stored_status_of (Bundle_fail_action b s) = Some FAILED)"
proof (intro conjI impI)
  assume ca: "proposal ca = Some p"
  show "proposal_status_of (ConstitutionAction_pass_action ca s) = Some PASSED"
    by (simp add: ConstitutionAction_pass_action_Some [OF ca] proposal_status_of_def
        Proposal_save_fields)
  show "stored_status_of (ConstitutionAction_pass_action ca s) = Some PASSED"
    using Proposal_save_stored [of "p\<lparr>status := PASSED\<rparr>" s]
    by (simp add: ConstitutionAction_pass_action_Some [OF ca] stored_status_of_def)
  show "proposal_status_of (ConstitutionAction_fail_action ca s) = Some FAILED"
    by (simp add: ConstitutionAction_fail_action_Some [OF ca] proposal_status_of_def
        Proposal_save_fields)
  show "stored_status_of (ConstitutionAction_fail_action ca s) = Some FAILED"
    using Proposal_save_stored [of "p\<lparr>status := FAILED\<rparr>" s]
    by (simp add: ConstitutionAction_fail_action_Some [OF ca] stored_status_of_def)
next
  assume pa: "proposal pa = Some p"
  show "proposal_status_of (PlatformAction_pass_action pa s) = Some PASSED"
    by (simp add: PlatformAction_pass_action_Some [OF pa] proposal_status_of_def
        Proposal_save_fields)
  show "stored_status_of (PlatformAction_pass_action pa s) = Some PASSED"
    using Proposal_save_stored [of "p\<lparr>status := PASSED\<rparr>" s]
    by (simp add: PlatformAction_pass_action_Some [OF pa] stored_status_of_def)
  show "proposal_status_of (PlatformAction_fail_action pa s) = Some FAILED"
    by (simp add: PlatformAction_fail_action_Some [OF pa] proposal_status_of_def
        Proposal_save_fields)
  show "stored_status_of (PlatformAction_fail_action pa s) = Some FAILED"
    using Proposal_save_stored [of "p\<lparr>status := FAILED\<rparr>" s]
    by (simp add: PlatformAction_fail_action_Some [OF pa] stored_status_of_def)
next
  assume b: "proposal b = Some p"
  show "proposal_status_of (Bundle_pass_action b s) = Some PASSED"
    by (simp add: Bundle_pass_action_Some [OF b] proposal_status_of_def Proposal_save_fields)
  show "stored_status_of (Bundle_pass_action b s) = Some PASSED"
    using Proposal_save_stored [of "p\<lparr>status := PASSED\<rparr>" s]
    by (simp add: Bundle_pass_action_Some [OF b] stored_status_of_def)
  show "proposal_status_of (Bundle_fail_action b s) = Some FAILED"
    by (simp add: Bundle_fail_action_Some [OF b] proposal_status_of_def Proposal_save_fields)
  show "stored_status_of (Bundle_fail_action b s) = Some FAILED"
    using Proposal_save_stored [of "p\<lparr>status := FAILED\<rparr>" s]
    by (simp add: Bundle_fail_action_Some [OF b] stored_status_of_def)
qed

subsection \<open>Creating proposals and saving actions\<close>

lemma Proposal_create_frame:
  "ConstitutionAction_objects (snd (Proposal_create st au s)) = ConstitutionAction_objects s"
  "PlatformAction_objects (snd (Proposal_create st au s)) = PlatformAction_objects s"
  "config (snd (Proposal_create st au s)) = config s"
  "world (snd (Proposal_create st au s)) = world s"
  "trace (snd (Proposal_create st au s)) = trace s"
  by (simp_all add: Proposal_create_def Proposal_save_frame)

lemma Proposal_create_fields:
  "status (fst (Proposal_create st au s)) = st"
  "author (fst (Proposal_create st au s)) = au"
  "proposal_pk (fst (Proposal_create st au s)) = Some (next_pk (Proposal_objects s))"
  by (simp_all add: Proposal_create_def Proposal_save_fields Proposal_save_pk)

lemma Proposal_create_stored:
  "stored_status (snd (Proposal_create st au s)) (fst (Proposal_create st au s)) = Some st"
  using Proposal_save_stored
    [of "\<lparr>proposal_pk = None, author = au, status = st, proposal_data = None\<rparr>" s]
  by (simp add: Proposal_create_def)

lemma Proposal_create_DataStore_rows:
  assumes "map_of (rows (DataStore_objects s)) k = Some d" and "k < next_pk (DataStore_objects s)"
  shows "map_of (rows (DataStore_objects (snd (Proposal_create st au s)))) k = Some d"
  using assms by (simp add: Proposal_create_def Proposal_save_DataStore_rows)

lemma ConstitutionAction_super_save_fields:
  "proposal (fst (ConstitutionAction_super_save a s)) = proposal a"
  "data (fst (ConstitutionAction_super_save a s)) = data a"
  "kind (fst (ConstitutionAction_super_save a s)) = kind a"
  "is_bundled (fst (ConstitutionAction_super_save a s)) = is_bundled a"
  "community (fst (ConstitutionAction_super_save a s)) = community a"
  "initiator (fst (ConstitutionAction_super_save a s)) = initiator a"
  by (cases "pk a"; simp add: ConstitutionAction_super_save_def case_prod_unfold
      model_save_def Let_def)+

lemma ConstitutionAction_super_save_frame:
  "DataStore_objects (snd (ConstitutionAction_super_save a s)) = DataStore_objects s"
  "Proposal_objects (snd (ConstitutionAction_super_save a s)) = Proposal_objects s"
  "config (snd (ConstitutionAction_super_save a s)) = config s"
  "world (snd (ConstitutionAction_super_save a s)) = world s"
  "trace (snd (ConstitutionAction_super_save a s)) = trace s"
  by (simp_all add: ConstitutionAction_super_save_def case_prod_unfold Let_def)

lemma PlatformAction_super_save_fields:
  "proposal (fst (PlatformAction_super_save a s)) = proposal a"
  "data (fst (PlatformAction_super_save a s)) = data a"
  "is_bundled (fst (PlatformAction_super_save a s)) = is_bundled a"
  "community (fst (PlatformAction_super_save a s)) = community a"
  "initiator (fst (PlatformAction_super_save a s)) = initiator a"
  "app_name (fst (PlatformAction_super_save a s)) = app_name a"
  "app_label (fst (PlatformAction_super_save a s)) = app_label a"
  "platform_codename (fst (PlatformAction_super_save a s)) = platform_codename a"
  by (cases "pk a"; simp add: PlatformAction_super_save_def case_prod_unfold
      model_save_def Let_def)+

lemma PlatformAction_super_save_frame:
  "DataStore_objects (snd (PlatformAction_super_save a s)) = DataStore_objects s"
  "Proposal_objects (snd (PlatformAction_super_save a s)) = Proposal_objects s"
  "config (snd (PlatformAction_super_save a s)) = config s"
  "world (snd (PlatformAction_super_save a s)) = world s"
  "trace (snd (PlatformAction_super_save a s)) = trace s"
  by (simp_all add: PlatformAction_super_save_def case_prod_unfold Let_def)

lemma stored_status_cong:
  "Proposal_objects s' = Proposal_objects s \<Longrightarrow> stored_status s' p = stored_status s p"
  by (cases "proposal_pk p") (simp_all add: stored_status_def)

lemmas save_simps =
  Let_def case_prod_unfold
  DataStore_create_frame Proposal_create_frame Proposal_create_fields Proposal_create_stored
  ConstitutionAction_super_save_fields ConstitutionAction_super_save_frame
  PlatformAction_super_save_fields PlatformAction_super_save_frame

lemma sum_case_ex:
  "(case r of Inl e \<Rightarrow> False | Inr (a, s) \<Rightarrow> P a s) \<Longrightarrow> \<exists>a s. r = Inr (a, s) \<and> P a s"
  by (auto split: sum.splits)

lemma ConstitutionAction_save_denied:
  assumes "shouldCreate a \<or> not_pk (pk a)"
    and "initiator a = Some u"
    and "\<not> has_perm u (''policyengine'' @ ''.add_'' @ action_codename (kind a))"
  shows "proposal_status_of (ConstitutionAction_save has_perm ep a s) = Some FAILED"
    and "stored_status_of (ConstitutionAction_save has_perm ep a s) = Some FAILED"
    and "\<exists>a' s'. ConstitutionAction_save has_perm ep a s = Inr (a', s')
          \<and> trace s' = trace s \<and> config s' = config s \<and> world s' = world s
          \<and> map_option proposal_pk (proposal a') = Some (Some (next_pk (Proposal_objects s)))"
proof -
  show "proposal_status_of (ConstitutionAction_save has_perm ep a s) = Some FAILED"
    using assms
    by (cases "shouldCreate a"; cases "data a = None")
       (simp_all add: ConstitutionAction_save_def proposal_status_of_def save_simps)
  show "stored_status_of (ConstitutionAction_save has_perm ep a s) = Some FAILED"
    using assms
    by (cases "shouldCreate a"; cases "data a = None")
       (simp_all add: ConstitutionAction_save_def stored_status_of_def save_simps
          stored_status_cong [OF ConstitutionAction_super_save_frame(2)])
  show "\<exists>a' s'. ConstitutionAction_save has_perm ep a s = Inr (a', s')
          \<and> trace s' = trace s \<and> config s' = config s \<and> world s' = world s
          \<and> map_option proposal_pk (proposal a') = Some (Some (next_pk (Proposal_objects s)))"
    using assms
    by (intro sum_case_ex; cases "shouldCreate a"; cases "data a = None")
       (simp_all add: ConstitutionAction_save_def save_simps)
qed

lemma PlatformAction_save_denied:
  assumes "not_pk (pk a)"
    and "initiator a = Some u"
    and "\<not> has_perm u (app_label a @ ''.add_'' @ platform_codename a)"
  shows "proposal_status_of (PlatformAction_save has_perm ep epa a s) = Some FAILED"
    and "stored_status_of (PlatformAction_save has_perm ep epa a s) = Some FAILED"
    and "\<exists>a' s'. PlatformAction_save has_perm ep epa a s = Inr (a', s')
          \<and> trace s' = trace s \<and> config s' = config s \<and> world s' = world s
          \<and> map_option proposal_pk (proposal a') = Some (Some (next_pk (Proposal_objects s)))"
proof -
  show "proposal_status_of (PlatformAction_save has_perm ep epa a s) = Some FAILED"
    using assms
    by (cases "data a = None")
       (simp_all add: PlatformAction_save_def proposal_status_of_def save_simps)
  show "stored_status_of (PlatformAction_save has_perm ep epa a s) = Some FAILED"
    using assms
    by (cases "data a = None")
       (simp_all add: PlatformAction_save_def stored_status_of_def save_simps
          stored_status_cong [OF PlatformAction_super_save_frame(2)])
  show "\<exists>a' s'. PlatformAction_save has_perm ep epa a s = Inr (a', s')
          \<and> trace s' = trace s \<and> config s' = config s \<and> world s' = world s
          \<and> map_option proposal_pk (proposal a') = Some (Some (next_pk (Proposal_objects s)))"
    using assms
    by (intro sum_case_ex; cases "data a = None")
       (simp_all add: PlatformAction_save_def save_simps)
qed



lemmas eval_defs =
  ConstitutionAction_save_def ConstitutionAction_execute_def ConstitutionAction_pass_action_def
  ConstitutionAction_fail_action_def ConstitutionAction_super_save_def shouldCreate_def
  PlatformAction_save_def PlatformAction_execute_def PlatformAction_pass_action_def
  PlatformAction_fail_action_def PlatformAction_super_save_def
  Proposal_create_def Proposal_save_def DataStore_create_def model_save_def model_delete_def
  not_pk_def new_action_def new_platform_action_def saved_action_def saved_platform_action_def
  the_community_def empty_db_def empty_table_def allow_all_def deny_all_def no_policy_def
  no_platform_def proposal_status_of_def stored_status_of_def stored_status_def
  CommunityDoc_get_or_create_def CommunityDoc_save_def CommunityDoc_delete_def
  CommunityRole_get_or_create_def CommunityRole_save_def CommunityRole_delete_def
  Policy_save_def Policy_delete_def role_write_def policies_of_def Let_def

subsection \<open>Denied actions and their data store\<close>

lemma ConstitutionAction_save_denied_data:
  assumes "shouldCreate a" and "data a = None"
    and "initiator a = Some u"
    and "\<not> has_perm u (''policyengine'' @ ''.add_'' @ action_codename (kind a))"
  shows "\<exists>a' s'. ConstitutionAction_save has_perm ep a s = Inr (a', s')
          \<and> data a' = Some (next_pk (DataStore_objects s))
          \<and> map_of (rows (DataStore_objects s')) (next_pk (DataStore_objects s))
              = Some \<lparr>data_store = EmptyText\<rparr>"
  using assms
  by (intro sum_case_ex)
     (simp add: ConstitutionAction_save_def save_simps DataStore_create_key
        Proposal_create_DataStore_rows DataStore_create_rows DataStore_create_next)

lemma ConstitutionAction_save_not_created_data:
  assumes "\<not> shouldCreate a"
  shows "\<exists>a' s'. ConstitutionAction_save has_perm ep a s = Inr (a', s') \<and> data a' = data a"
  using assms
  by (intro sum_case_ex)
     (simp add: ConstitutionAction_save_def save_simps)

lemma PlatformAction_save_denied_data:
  assumes "not_pk (pk a)" and "data a = None"
    and "initiator a = Some u"
    and "\<not> has_perm u (app_label a @ ''.add_'' @ platform_codename a)"
  shows "\<exists>a' s'. PlatformAction_save has_perm ep epa a s = Inr (a', s')
          \<and> data a' = Some (next_pk (DataStore_objects s))
          \<and> map_of (rows (DataStore_objects s')) (next_pk (DataStore_objects s))
              = Some \<lparr>data_store = EmptyText\<rparr>"
  using assms
  by (intro sum_case_ex)
     (simp add: PlatformAction_save_def save_simps DataStore_create_key
        Proposal_create_DataStore_rows DataStore_create_rows DataStore_create_next)

subsection \<open>Bundles\<close>











subsection \<open>The bypass path, with an effect that completes or raises\<close>







subsection \<open>The loops of the bundles: what they change, and where they stop\<close>








subsection \<open>The permission gate\<close>

text \<open>
  Claim C1. A new action (for a constitution action: one that is new or whose
  \<^verbatim>\<open>shouldCreate()\<close> holds) whose initiator lacks the propose permission gets a new
  proposal with status \<^verbatim>\<open>failed\<close>, on the instance and in the store; \<^verbatim>\<open>save\<close> returns, and
  the trace, the configuration and the platform are what they were: no policy was
  executed and no effect ran.
\<close>

theorem save_without_propose_permission:
  "((shouldCreate ca \<or> not_pk (pk ca)) \<and> initiator ca = Some u
      \<and> \<not> has_perm u (''policyengine'' @ ''.add_'' @ action_codename (kind ca)) \<longrightarrow>
      proposal_status_of (ConstitutionAction_save has_perm ep ca s) = Some FAILED
    \<and> stored_status_of (ConstitutionAction_save has_perm ep ca s) = Some FAILED
    \<and> (\<exists>a' s'. ConstitutionAction_save has_perm ep ca s = Inr (a', s')
          \<and> trace s' = trace s \<and> config s' = config s \<and> world s' = world s
          \<and> map_option proposal_pk (proposal a') = Some (Some (next_pk (Proposal_objects s)))))
   \<and> (not_pk (pk pa) \<and> initiator pa = Some u
      \<and> \<not> has_perm u (app_label pa @ ''.add_'' @ platform_codename pa) \<longrightarrow>
      proposal_status_of (PlatformAction_save has_perm epp epa pa s) = Some FAILED
    \<and> stored_status_of (PlatformAction_save has_perm epp epa pa s) = Some FAILED
    \<and> (\<exists>a' s'. PlatformAction_save has_perm epp epa pa s = Inr (a', s')
          \<and> trace s' = trace s \<and> config s' = config s \<and> world s' = world s
          \<and> map_option proposal_pk (proposal a') = Some (Some (next_pk (Proposal_objects s)))))"
proof (intro conjI impI)
  assume h: "(shouldCreate ca \<or> not_pk (pk ca)) \<and> initiator ca = Some u
      \<and> \<not> has_perm u (''policyengine'' @ ''.add_'' @ action_codename (kind ca))"
  then have h1: "shouldCreate ca \<or> not_pk (pk ca)" and h2: "initiator ca = Some u"
    and h3: "\<not> has_perm u (''policyengine'' @ ''.add_'' @ action_codename (kind ca))"
    by blast+
  show "proposal_status_of (ConstitutionAction_save has_perm ep ca s) = Some FAILED"
    by (rule ConstitutionAction_save_denied(1) [where has_perm = has_perm, OF h1 h2 h3])
  show "stored_status_of (ConstitutionAction_save has_perm ep ca s) = Some FAILED"
    by (rule ConstitutionAction_save_denied(2) [where has_perm = has_perm, OF h1 h2 h3])
  show "\<exists>a' s'. ConstitutionAction_save has_perm ep ca s = Inr (a', s')
          \<and> trace s' = trace s \<and> config s' = config s \<and> world s' = world s
          \<and> map_option proposal_pk (proposal a') = Some (Some (next_pk (Proposal_objects s)))"
    by (rule ConstitutionAction_save_denied(3) [where has_perm = has_perm, OF h1 h2 h3])
next
  assume h: "not_pk (pk pa) \<and> initiator pa = Some u
      \<and> \<not> has_perm u (app_label pa @ ''.add_'' @ platform_codename pa)"
  then have h1: "not_pk (pk pa)" and h2: "initiator pa = Some u"
    and h3: "\<not> has_perm u (app_label pa @ ''.add_'' @ platform_codename pa)"
    by blast+
  show "proposal_status_of (PlatformAction_save has_perm epp epa pa s) = Some FAILED"
    by (rule PlatformAction_save_denied(1) [where has_perm = has_perm, OF h1 h2 h3])
  show "stored_status_of (PlatformAction_save has_perm epp epa pa s) = Some FAILED"
    by (rule PlatformAction_save_denied(2) [where has_perm = has_perm, OF h1 h2 h3])
  show "\<exists>a' s'. PlatformAction_save has_perm epp epa pa s = Inr (a', s')
          \<and> trace s' = trace s \<and> config s' = config s \<and> world s' = world s
          \<and> map_option proposal_pk (proposal a') = Some (Some (next_pk (Proposal_objects s)))"
    by (rule PlatformAction_save_denied(3) [where has_perm = has_perm, OF h1 h2 h3])
qed

theorem save_without_propose_permission_witness:
  "shouldCreate (new_action (PolicykitAddCommunityDoc ''rules'' ''be kind''))
   \<and> initiator (new_action (PolicykitAddCommunityDoc ''rules'' ''be kind'')) = Some 1
   \<and> \<not> deny_all 1 (''policyengine'' @ ''.add_''
          @ action_codename (PolicykitAddCommunityDoc ''rules'' ''be kind''))
   \<and> proposal_status_of (ConstitutionAction_save deny_all no_policy
        (new_action (PolicykitAddCommunityDoc ''rules'' ''be kind'')) empty_db) = Some FAILED
   \<and> stored_status_of (ConstitutionAction_save deny_all no_policy
        (new_action (PolicykitAddCommunityDoc ''rules'' ''be kind'')) empty_db) = Some FAILED
   \<and> not_pk (pk new_platform_action) \<and> initiator new_platform_action = Some 1
   \<and> \<not> deny_all 1 (app_label new_platform_action @ ''.add_''
          @ platform_codename new_platform_action)
   \<and> proposal_status_of (PlatformAction_save deny_all no_policy no_platform
        new_platform_action empty_db) = Some FAILED
   \<and> stored_status_of (PlatformAction_save deny_all no_policy no_platform
        new_platform_action empty_db) = Some FAILED"
  using save_without_propose_permission
    [where ca = "new_action (PolicykitAddCommunityDoc ''rules'' ''be kind'')" and u = 1
       and has_perm = deny_all and ep = no_policy and s = empty_db
       and pa = new_platform_action and epp = no_policy and epa = no_platform]
  by (simp add: shouldCreate_def new_action_def new_platform_action_def not_pk_def deny_all_def)




subsection \<open>Terminal states\<close>

text \<open>
  Claim C3 as stated fails: after the document action of member 1 has passed,
  \<^verbatim>\<open>fail_action\<close> on it sets the status to \<^verbatim>\<open>failed\<close>, on the instance and in the store.
\<close>

theorem fail_after_pass_counterexample:
  "proposal_status_of (Inr after_bypass) = Some PASSED
   \<and> stored_status_of (Inr after_bypass) = Some PASSED
   \<and> proposal_status_of (ConstitutionAction_fail_action (fst after_bypass) (snd after_bypass))
        = Some FAILED
   \<and> stored_status_of (ConstitutionAction_fail_action (fst after_bypass) (snd after_bypass))
        = Some FAILED"
  by (simp add: after_bypass_def eval_defs)

theorem pass_fail_action_status_witness:
  "proposal (saved_action 1 (PolicykitAddCommunityDoc ''rules'' ''be kind'') FAILED)
     = Some \<lparr>proposal_pk = Some 1, author = Some 1, status = FAILED, proposal_data = None\<rparr>
   \<and> proposal_status_of (ConstitutionAction_pass_action
        (saved_action 1 (PolicykitAddCommunityDoc ''rules'' ''be kind'') FAILED) empty_db)
        = Some PASSED
   \<and> proposal (saved_platform_action 1 FAILED)
     = Some \<lparr>proposal_pk = Some 1, author = Some 1, status = FAILED, proposal_data = None\<rparr>
   \<and> stored_status_of (PlatformAction_pass_action (saved_platform_action 1 FAILED) empty_db)
        = Some PASSED
   \<and> proposal ((bundle_of BUNDLE ([] :: PlatformAction list))\<lparr>proposal :=
         Some \<lparr>proposal_pk = Some 1, author = Some 1, status = FAILED, proposal_data = None\<rparr>\<rparr>)
     = Some \<lparr>proposal_pk = Some 1, author = Some 1, status = FAILED, proposal_data = None\<rparr>
   \<and> stored_status_of (Bundle_pass_action
        ((bundle_of BUNDLE ([] :: PlatformAction list))\<lparr>proposal :=
           Some \<lparr>proposal_pk = Some 1, author = Some 1, status = FAILED,
                  proposal_data = None\<rparr>\<rparr>) empty_db)
        = Some PASSED"
  using pass_fail_action_status
    [where ca = "saved_action 1 (PolicykitAddCommunityDoc ''rules'' ''be kind'') FAILED"
       and p = "\<lparr>proposal_pk = Some 1, author = Some 1, status = FAILED, proposal_data = None\<rparr>"
       and pa = "saved_platform_action 1 FAILED"
       and b = "(bundle_of BUNDLE ([] :: PlatformAction list))\<lparr>proposal :=
         Some \<lparr>proposal_pk = Some 1, author = Some 1, status = FAILED, proposal_data = None\<rparr>\<rparr>"
       and s = empty_db]
  by (simp add: saved_action_def saved_platform_action_def bundle_of_def)

subsection \<open>The data store of a denied action\<close>

text \<open>
  Claim C4 as stated fails: the platform action of a member who may not propose it leaves
  \<^verbatim>\<open>save\<close> with a new DataStore, the first row of the table.
\<close>

theorem denied_action_data_store_counterexample:
  "data new_platform_action = None
   \<and> \<not> deny_all 1 (app_label new_platform_action @ ''.add_''
          @ platform_codename new_platform_action)
   \<and> rows (DataStore_objects empty_db) = []
   \<and> data (fst (projr (PlatformAction_save deny_all no_policy no_platform
        new_platform_action empty_db))) = Some 1
   \<and> map_of (rows (DataStore_objects (snd (projr (PlatformAction_save deny_all no_policy
        no_platform new_platform_action empty_db))))) 1 = Some \<lparr>data_store = EmptyText\<rparr>"
  by (simp add: eval_defs)

text \<open>
  Claim C4, as the code has it. The initiator lacks the propose permission and the
  action's \<^verbatim>\<open>data\<close> is \<^verbatim>\<open>None\<close>. Where the creation path runs (a constitution action whose
  \<^verbatim>\<open>shouldCreate()\<close> holds, a new platform action), \<^verbatim>\<open>save\<close> creates a DataStore with the
  empty text and attaches it to the action, before it checks the permission. A
  constitution action whose \<^verbatim>\<open>shouldCreate()\<close> is false keeps the \<^verbatim>\<open>data\<close> it has.
\<close>

theorem denied_action_data_store:
  "(shouldCreate ca \<and> data ca = None \<and> initiator ca = Some u
      \<and> \<not> has_perm u (''policyengine'' @ ''.add_'' @ action_codename (kind ca)) \<longrightarrow>
      (\<exists>a' s'. ConstitutionAction_save has_perm ep ca s = Inr (a', s')
          \<and> data a' = Some (next_pk (DataStore_objects s))
          \<and> map_of (rows (DataStore_objects s')) (next_pk (DataStore_objects s))
              = Some \<lparr>data_store = EmptyText\<rparr>))
   \<and> (\<not> shouldCreate ca \<longrightarrow>
      (\<exists>a' s'. ConstitutionAction_save has_perm ep ca s = Inr (a', s') \<and> data a' = data ca))
   \<and> (not_pk (pk pa) \<and> data pa = None \<and> initiator pa = Some u
      \<and> \<not> has_perm u (app_label pa @ ''.add_'' @ platform_codename pa) \<longrightarrow>
      (\<exists>a' s'. PlatformAction_save has_perm epp epa pa s = Inr (a', s')
          \<and> data a' = Some (next_pk (DataStore_objects s))
          \<and> map_of (rows (DataStore_objects s')) (next_pk (DataStore_objects s))
              = Some \<lparr>data_store = EmptyText\<rparr>))"
proof (intro conjI impI)
  assume "shouldCreate ca \<and> data ca = None \<and> initiator ca = Some u
      \<and> \<not> has_perm u (''policyengine'' @ ''.add_'' @ action_codename (kind ca))"
  then have h1: "shouldCreate ca" and h2: "data ca = None" and h3: "initiator ca = Some u"
    and h4: "\<not> has_perm u (''policyengine'' @ ''.add_'' @ action_codename (kind ca))"
    by blast+
  show "\<exists>a' s'. ConstitutionAction_save has_perm ep ca s = Inr (a', s')
          \<and> data a' = Some (next_pk (DataStore_objects s))
          \<and> map_of (rows (DataStore_objects s')) (next_pk (DataStore_objects s))
              = Some \<lparr>data_store = EmptyText\<rparr>"
    by (rule ConstitutionAction_save_denied_data [where has_perm = has_perm, OF h1 h2 h3 h4])
next
  assume "\<not> shouldCreate ca"
  then show "\<exists>a' s'. ConstitutionAction_save has_perm ep ca s = Inr (a', s')
      \<and> data a' = data ca"
    by (rule ConstitutionAction_save_not_created_data)
next
  assume "not_pk (pk pa) \<and> data pa = None \<and> initiator pa = Some u
      \<and> \<not> has_perm u (app_label pa @ ''.add_'' @ platform_codename pa)"
  then have h1: "not_pk (pk pa)" and h2: "data pa = None" and h3: "initiator pa = Some u"
    and h4: "\<not> has_perm u (app_label pa @ ''.add_'' @ platform_codename pa)"
    by blast+
  show "\<exists>a' s'. PlatformAction_save has_perm epp epa pa s = Inr (a', s')
          \<and> data a' = Some (next_pk (DataStore_objects s))
          \<and> map_of (rows (DataStore_objects s')) (next_pk (DataStore_objects s))
              = Some \<lparr>data_store = EmptyText\<rparr>"
    by (rule PlatformAction_save_denied_data [where has_perm = has_perm, OF h1 h2 h3 h4])
qed

theorem denied_action_data_store_witness:
  "shouldCreate (new_action (PolicykitAddCommunityDoc ''rules'' ''be kind''))
   \<and> data (new_action (PolicykitAddCommunityDoc ''rules'' ''be kind'')) = None
   \<and> initiator (new_action (PolicykitAddCommunityDoc ''rules'' ''be kind'')) = Some 1
   \<and> \<not> deny_all 1 (''policyengine'' @ ''.add_''
          @ action_codename (PolicykitAddCommunityDoc ''rules'' ''be kind''))
   \<and> data (fst (projr (ConstitutionAction_save deny_all no_policy
        (new_action (PolicykitAddCommunityDoc ''rules'' ''be kind'')) empty_db))) = Some 1
   \<and> \<not> shouldCreate (new_action (PolicykitAddRole ''mod'' '''' []))
   \<and> data (fst (projr (ConstitutionAction_save deny_all no_policy
        (new_action (PolicykitAddRole ''mod'' '''' [])) empty_db))) = None
   \<and> not_pk (pk new_platform_action) \<and> data new_platform_action = None
   \<and> initiator new_platform_action = Some 1
   \<and> data (fst (projr (PlatformAction_save deny_all no_policy no_platform
        new_platform_action empty_db))) = Some 1"
  using denied_action_data_store
    [where ca = "new_action (PolicykitAddCommunityDoc ''rules'' ''be kind'')" and u = 1
       and has_perm = deny_all and ep = no_policy and s = empty_db
       and pa = new_platform_action and epp = no_policy and epa = no_platform]
    denied_action_data_store
    [where ca = "new_action (PolicykitAddRole ''mod'' '''' [])" and u = 1
       and has_perm = deny_all and ep = no_policy and s = empty_db
       and pa = new_platform_action and epp = no_policy and epa = no_platform]
  by (auto simp add: shouldCreate_def new_action_def new_platform_action_def not_pk_def
      deny_all_def empty_db_def empty_table_def)

subsection \<open>Deleting what is already gone\<close>

text \<open>
  Claim C5 at an entity that is already gone. The foreign key of the action is \<^verbatim>\<open>None\<close>:
  \<^verbatim>\<open>execute\<close> of the four delete and remove actions raises \<^verbatim>\<open>AttributeError\<close> and does not
  reach \<^verbatim>\<open>pass_action\<close>. The action holds an instance that has been deleted (its \<^verbatim>\<open>pk\<close> is
  \<^verbatim>\<open>None\<close>): delete-role passes, as its \<^verbatim>\<open>except AssertionError\<close> says, and the three
  others raise the \<^verbatim>\<open>AssertionError\<close>.
\<close>

theorem execute_delete_absent:
  "ConstitutionAction_execute (saved_action 1 (PolicykitDeleteCommunityDoc None) PROPOSED)
     empty_db = Inl AttributeError
   \<and> ConstitutionAction_execute (saved_action 1 (PolicykitDeleteRole None) PROPOSED)
     empty_db = Inl AttributeError
   \<and> ConstitutionAction_execute (saved_action 1 (PolicykitRemovePlatformPolicy None) PROPOSED)
     empty_db = Inl AttributeError
   \<and> ConstitutionAction_execute (saved_action 1 (PolicykitRemoveConstitutionPolicy None)
       PROPOSED) empty_db = Inl AttributeError
   \<and> proposal_status_of (ConstitutionAction_execute (saved_action 1 (PolicykitDeleteRole
       (Some \<lparr>role_pk = None, group_name = ''slack: c: mod'', role_name = ''mod'',
              role_description = '''', role_community = Some 1, permissions = [],
              user_set = []\<rparr>)) PROPOSED) empty_db) = Some PASSED
   \<and> ConstitutionAction_execute (saved_action 1 (PolicykitDeleteCommunityDoc
       (Some \<lparr>doc_pk = None, doc_name = ''rules'', doc_text = ''be kind'',
              doc_community = Some 1\<rparr>)) PROPOSED) empty_db = Inl AssertionError
   \<and> ConstitutionAction_execute (saved_action 1 (PolicykitRemovePlatformPolicy
       (Some (new_policy \<lparr>editor_name = None, editor_description = None, editor_filter = [],
                editor_initialize = [], editor_check = [], editor_notify = [],
                editor_success = [], editor_fail = []\<rparr> False the_community))) PROPOSED)
       empty_db = Inl AssertionError"
  by (simp add: eval_defs new_policy_def)

subsection \<open>Executing a bundle\<close>







end
